theory Spec2Isabelle
  imports Complex_Main "HOL-Library.AList" "HOL-Library.Char_ord" "HOL-Library.List_Lexorder"
    "HOL-Library.Product_Lexorder"
begin

section \<open>Decimal arithmetic of the scoring code\<close>

text \<open>
  Every weight, achievement, score, target and actual value of the services is a Python
  \<^verbatim>\<open>decimal.Decimal\<close>, and the services compute with the operators \<^verbatim>\<open>*\<close>, \<^verbatim>\<open>/\<close>,
  \<^verbatim>\<open>+=\<close> and \<^verbatim>\<open>>=\<close> under the default context: 28 significant digits, rounding
  half-even. A finite decimal is a signed integer coefficient and an exponent; its value is
  \<open>coefficient * 10 ^ exponent\<close>. The request schemas accept finite decimals only.
  The sign of a zero is not represented, and the exponent is unbounded: the limits
  \<^verbatim>\<open>Emax = 999999\<close> and \<^verbatim>\<open>Emin = -999999\<close> of the context are assumed not to be
  reached.
\<close>

datatype decimal = Dec (coeff: int) (expo: int)

definition prec :: nat where
  "prec = 28"

text \<open>
  The number of decimal digits of the magnitude of a coefficient: \<^verbatim>\<open>len(self._int)\<close>.
\<close>

function ndigits :: "int \<Rightarrow> nat" where
  "ndigits n = (if n < 10 then 1 else Suc (ndigits (n div 10)))"
  by pat_completeness auto
termination
  by (relation "measure nat") auto

declare ndigits.simps [simp del]

text \<open>Dropping the last \<open>k\<close> digits of a magnitude, rounding half to even.\<close>

definition round_half_even :: "int \<Rightarrow> nat \<Rightarrow> int" where
  "round_half_even m k =
     (let q = m div 10 ^ k; r = m mod 10 ^ k; half = 5 * 10 ^ (k - 1)
      in if half < r \<or> (r = half \<and> odd q) then q + 1 else q)"

text \<open>
  \<^verbatim>\<open>Decimal._fix\<close>: a coefficient of more than \<open>prec\<close> digits is rounded to \<open>prec\<close>
  digits; when rounding carries into a further digit, the last digit is dropped again.
\<close>

definition dec_fix :: "int \<Rightarrow> int \<Rightarrow> decimal" where
  "dec_fix c e =
     (let m = \<bar>c\<bar> in
      if prec < ndigits m then
        (let k = ndigits m - prec; q = round_half_even m k
         in if prec < ndigits q then Dec (sgn c * (q div 10)) (e + int k + 1)
            else Dec (sgn c * q) (e + int k))
      else Dec c e)"

text \<open>\<^verbatim>\<open>Decimal.__mul__\<close>: exact product, then \<^verbatim>\<open>_fix\<close>.\<close>

definition dec_mul :: "decimal \<Rightarrow> decimal \<Rightarrow> decimal" where
  "dec_mul a b = dec_fix (coeff a * coeff b) (expo a + expo b)"

text \<open>
  \<^verbatim>\<open>Decimal.__add__\<close>: the operands are aligned to the smaller exponent and the exact sum
  of the coefficients is rounded by \<^verbatim>\<open>_fix\<close>.
\<close>

definition dec_add :: "decimal \<Rightarrow> decimal \<Rightarrow> decimal" where
  "dec_add a b =
     (let e = min (expo a) (expo b)
      in dec_fix (coeff a * 10 ^ nat (expo a - e) + coeff b * 10 ^ nat (expo b - e)) e)"

text \<open>
  The loop of \<^verbatim>\<open>Decimal.__truediv__\<close> that brings an exact quotient towards its ideal
  exponent:
  \<^verbatim>\<open>while exp < ideal_exp and coeff % 10 == 0: coeff //= 10; exp += 1\<close>
\<close>

function strip_zeros :: "int \<Rightarrow> int \<Rightarrow> int \<Rightarrow> int \<times> int" where
  "strip_zeros c e ideal =
     (if e < ideal \<and> c mod 10 = 0 then strip_zeros (c div 10) (e + 1) ideal else (c, e))"
  by pat_completeness auto
termination
  by (relation "measure (\<lambda>(c, e, ideal). nat (ideal - e))") auto

declare strip_zeros.simps [simp del]

datatype dec_error = DivisionByZero | InvalidOperation

text \<open>
  \<^verbatim>\<open>Decimal.__truediv__\<close> on two non-zero operands: the quotient of the magnitudes is
  computed to \<open>prec + 1\<close> digits; an inexact quotient ending in 0 or 5 is bumped so that
  \<^verbatim>\<open>_fix\<close> rounds it correctly; an exact one loses trailing zeros up to the ideal exponent.
\<close>

definition dec_quotient :: "decimal \<Rightarrow> decimal \<Rightarrow> decimal" where
  "dec_quotient a b =
     (let m1 = \<bar>coeff a\<bar>; m2 = \<bar>coeff b\<bar>;
          shift = int (ndigits m2) - int (ndigits m1) + int prec + 1;
          e = expo a - expo b - shift;
          n = (if 0 \<le> shift then m1 * 10 ^ nat shift else m1);
          d = (if 0 \<le> shift then m2 else m2 * 10 ^ nat (- shift));
          q = n div d; r = n mod d;
          (q', e') = (if r \<noteq> 0 then (if q mod 5 = 0 then q + 1 else q, e)
                      else strip_zeros q e (expo a - expo b))
      in dec_fix (sgn (coeff a) * sgn (coeff b) * q') e')"

text \<open>Division by zero raises; a zero dividend gives a zero; otherwise the quotient.\<close>

definition dec_div :: "decimal \<Rightarrow> decimal \<Rightarrow> dec_error + decimal" where
  "dec_div a b =
     (if coeff b = 0 then (if coeff a = 0 then Inl InvalidOperation else Inl DivisionByZero)
      else if coeff a = 0 then Inr (dec_fix 0 (expo a - expo b))
      else Inr (dec_quotient a b))"

text \<open>\<^verbatim>\<open>a <= b\<close> and \<^verbatim>\<open>a >= b\<close> compare the exact values; nothing is rounded.\<close>

definition dec_le :: "decimal \<Rightarrow> decimal \<Rightarrow> bool" where
  "dec_le a b =
     (let e = min (expo a) (expo b)
      in coeff a * 10 ^ nat (expo a - e) \<le> coeff b * 10 ^ nat (expo b - e))"

text \<open>The rational number a decimal stands for.\<close>

definition dec_val :: "decimal \<Rightarrow> rat" where
  "dec_val a =
     (if 0 \<le> expo a then of_int (coeff a) * 10 ^ nat (expo a)
      else of_int (coeff a) / 10 ^ nat (- expo a))"


section \<open>Data model\<close>

text \<open>
  Rows of the tables of \<^verbatim>\<open>src/models\<close>. \<^verbatim>\<open>BaseModel\<close> and \<^verbatim>\<open>AuditMixin\<close> give every
  table its primary key and the audit columns; the field \<^verbatim>\<open>id\<close> is called \<open>uid\<close> here.
  Identifiers and timestamps are numbers. Columns are prefixed with their table, since the
  models share column names. Descriptive columns that no operation below reads
  (definitions, units, free text, the acting user) are left out.
\<close>

type_synonym uuid = nat
type_synonym datetime = nat

record base_model =
  uid :: uuid
  created_at :: datetime
  updated_at :: "datetime option"
  is_deleted :: bool

datatype perspective = FINANCIAL | CUSTOMER | INTERNAL_BUSINESS_PROCESS | LEARNING_GROWTH

datatype mpm_status = ON_TRACK | AT_RISK | OFF_TRACK

datatype period_status = DRAFT | ACTIVE | CLOSED

record period = base_model +
  p_year :: int
  p_period :: string
  p_status :: period_status

record bsc_indicator = base_model +
  bi_code :: string
  bi_perspective :: perspective
  bi_weight :: decimal
  bi_is_active :: bool
  bi_period_id :: uuid

record bsc_actual = base_model +
  ba_actual_value :: string
  ba_achievement :: decimal
  ba_score :: decimal
  ba_active_weight :: decimal
  ba_total_score :: decimal
  ba_score_akhir :: decimal
  ba_indicator_id :: uuid

record mpm_indicator = base_model +
  mi_kpi :: string
  mi_weight :: decimal
  mi_kpi_number :: "int option"
  mi_perspective :: "perspective option"
  mi_is_active :: bool
  mi_period_id :: uuid

record mpm_action_plan = base_model +
  ap_description :: string
  ap_status :: mpm_status
  ap_indicator_id :: uuid

record mpm_quarterly_data = base_model +
  qd_quarter :: string
  qd_target_value :: decimal
  qd_actual_value :: "decimal option"
  qd_action_plan_id :: uuid

record mpm_actual = base_model +
  ma_actual_value :: decimal
  ma_achievement :: decimal
  ma_score :: decimal
  ma_indicator_id :: uuid

text \<open>
  The database: one list of rows per table, in the order in which a query without
  \<^verbatim>\<open>ORDER BY\<close> returns them.
\<close>

record db =
  periods :: "period list"
  bsc_indicators :: "bsc_indicator list"
  bsc_actuals :: "bsc_actual list"
  mpm_indicators :: "mpm_indicator list"
  mpm_action_plans :: "mpm_action_plan list"
  mpm_quarterly_datas :: "mpm_quarterly_data list"
  mpm_actuals :: "mpm_actual list"

text \<open>
  What a request can end with instead of a result: the \<^verbatim>\<open>HTTPException\<close>s raised by the
  services (404 and 400), and the Python exceptions of the paths modelled here.
\<close>

datatype error =
    NotFound
  | BadRequest
  | TypeError
  | AttributeError
  | IntegrityError
  | ArithmeticError dec_error

text \<open>
  A field of an update schema. All of them are \<^verbatim>\<open>Optional\<close> with default \<^verbatim>\<open>None\<close>;
  \<^verbatim>\<open>dict(exclude_unset=True)\<close> keeps the fields the request has set, also those set to
  \<^verbatim>\<open>null\<close>, while reading the attribute gives \<^verbatim>\<open>None\<close> in both other cases.
\<close>

datatype 'a field = Unset | Null | Value 'a

fun attr :: "'a field \<Rightarrow> 'a option" where
  "attr Unset = None"
| "attr Null = None"
| "attr (Value v) = Some v"


text \<open>
  \<^verbatim>\<open>setattr\<close> of one field in \<^verbatim>\<open>BaseRepository.update\<close>. A column declared
  \<^verbatim>\<open>nullable=False\<close> refuses \<^verbatim>\<open>null\<close> at the commit.
\<close>

fun set_required :: "'a field \<Rightarrow> 'a \<Rightarrow> error + 'a" where
  "set_required Unset old = Inr old"
| "set_required Null old = Inl IntegrityError"
| "set_required (Value v) old = Inr v"

fun set_nullable :: "'a field \<Rightarrow> 'a option \<Rightarrow> 'a option" where
  "set_nullable Unset old = old"
| "set_nullable Null old = None"
| "set_nullable (Value v) old = Some v"

section \<open>Repositories\<close>

text \<open>\<^verbatim>\<open>results.first()\<close>: the first row of a result, or \<^verbatim>\<open>None\<close>.\<close>

fun first :: "'a list \<Rightarrow> 'a option" where
  "first [] = None"
| "first (x # xs) = Some x"

text \<open>
  \<^verbatim>\<open>ORDER BY\<close>. SQL leaves the order of rows with equal keys open; the model takes a
  stable sort, and its reverse for \<^verbatim>\<open>DESC\<close>.
\<close>

definition order_by :: "('a \<Rightarrow> 'k::linorder) \<Rightarrow> 'a list \<Rightarrow> 'a list" where
  "order_by key rows = sort_key key rows"

definition order_by_desc :: "('a \<Rightarrow> 'k::linorder) \<Rightarrow> 'a list \<Rightarrow> 'a list" where
  "order_by_desc key rows = rev (sort_key key rows)"

subsection \<open>\<^verbatim>\<open>BaseRepository\<close>\<close>

definition get :: "('a base_model_scheme) list \<Rightarrow> uuid \<Rightarrow> 'a base_model_scheme option" where
  "get tbl i = first (filter (\<lambda>r. uid r = i \<and> \<not> is_deleted r) tbl)"

definition get_or_404 :: "('a base_model_scheme) list \<Rightarrow> uuid \<Rightarrow> error + 'a base_model_scheme" where
  "get_or_404 tbl i = (case get tbl i of None \<Rightarrow> Inl NotFound | Some r \<Rightarrow> Inr r)"

text \<open>\<^verbatim>\<open>create\<close>: \<^verbatim>\<open>session.add\<close> and \<^verbatim>\<open>commit\<close> of a new row.\<close>

definition create :: "'r list \<Rightarrow> 'r \<Rightarrow> 'r list" where
  "create tbl r = tbl @ [r]"

text \<open>
  \<^verbatim>\<open>update\<close>: the commit writes the changed object back to the row with its primary key.
\<close>

definition update :: "('a base_model_scheme) list \<Rightarrow> 'a base_model_scheme \<Rightarrow> ('a base_model_scheme) list" where
  "update tbl r = map (\<lambda>x. if uid x = uid r then r else x) tbl"


section \<open>Recording actuals\<close>



record bsc_actual_create =
  bac_actual_value :: string
  bac_achievement :: decimal
  bac_indicator_id :: uuid



subsection \<open>\<^verbatim>\<open>MPMActualService\<close>\<close>




subsection \<open>\<^verbatim>\<open>BSCActualService\<close>\<close>

text \<open>
  \<^verbatim>\<open>Decimal(0.2)\<close> converts the binary floating-point number written \<^verbatim>\<open>0.2\<close>, which is
  \<open>3602879701896397 / 2 ^ 54\<close>, to its exact decimal expansion of 54 places.
\<close>

definition Decimal_float_0_2 :: decimal where
  "Decimal_float_0_2 = Dec 200000000000000011102230246251565404236316680908203125 (- 54)"

text \<open>
  The derived fields of \<^verbatim>\<open>create_actual\<close> and \<^verbatim>\<open>update_actual\<close>, which compute them with
  the same four lines: score, active weight and total score (the final score is the total
  score again).
\<close>

definition bsc_derive :: "decimal \<Rightarrow> decimal \<Rightarrow> error + decimal \<times> decimal \<times> decimal" where
  "bsc_derive weight achievement_in =
     (case dec_div achievement_in (Dec 100 0) of
        Inl e \<Rightarrow> Inl (ArithmeticError e)
      | Inr achievement \<Rightarrow>
          (let score = dec_mul weight achievement;
               active_weight = dec_mul weight (Dec 2 0);
               total_score = dec_mul score Decimal_float_0_2
           in Inr (score, active_weight, total_score)))"

definition bsc_create_actual ::
  "uuid \<Rightarrow> datetime \<Rightarrow> bsc_actual_create \<Rightarrow> db \<Rightarrow> (error + bsc_actual) \<times> db" where
  "bsc_create_actual new_id now actual_in s =
     (case get_or_404 (bsc_indicators s) (bac_indicator_id actual_in) of
        Inl e \<Rightarrow> (Inl e, s)
      | Inr indicator \<Rightarrow>
          (case bsc_derive (bi_weight indicator) (bac_achievement actual_in) of
             Inl e \<Rightarrow> (Inl e, s)
           | Inr (score, active_weight, total_score) \<Rightarrow>
               (let row = \<lparr>uid = new_id, created_at = now, updated_at = None, is_deleted = False,
                           ba_actual_value = bac_actual_value actual_in,
                           ba_achievement = bac_achievement actual_in,
                           ba_score = score,
                           ba_active_weight = active_weight,
                           ba_total_score = total_score,
                           ba_score_akhir = total_score,
                           ba_indicator_id = bac_indicator_id actual_in\<rparr>
                in (Inr row, s\<lparr>bsc_actuals := create (bsc_actuals s) row\<rparr>))))"



section \<open>Dashboard aggregation\<close>

text \<open>
  \<^verbatim>\<open>get_dashboard_data\<close> of the two indicator repositories. The dictionary \<^verbatim>\<open>data\<close>, keyed by
  perspective, is an association list in insertion order: \<open>AList.update\<close> replaces the value
  of a key that is present where it stands and appends a new key at the end, as assignment
  to a Python dictionary does. The dictionary \<^verbatim>\<open>totals\<close> and the entry of a perspective carry
  the same sums; the entry has the list of items besides. The result spreads \<^verbatim>\<open>totals\<close> into
  the top level; here it is one field.
\<close>

definition Decimal_0 :: decimal where
  "Decimal_0 = Dec 0 0"

subsection \<open>\<^verbatim>\<open>BSCIndicatorRepository\<close>\<close>

definition bsc_get_by_code :: "db \<Rightarrow> string \<Rightarrow> uuid \<Rightarrow> bsc_indicator option" where
  "bsc_get_by_code s code period_id =
     first (filter (\<lambda>i. bi_code i = code \<and> bi_period_id i = period_id \<and> \<not> is_deleted i)
       (bsc_indicators s))"

definition bsc_get_by_period :: "db \<Rightarrow> uuid \<Rightarrow> bsc_indicator list" where
  "bsc_get_by_period s period_id =
     filter (\<lambda>i. bi_period_id i = period_id \<and> \<not> is_deleted i) (bsc_indicators s)"

record bsc_sums =
  bsc_total_weight :: decimal
  bsc_total_score :: decimal
  bsc_total_active_weight :: decimal
  bsc_total_score_akhir :: decimal

record bsc_item =
  bsc_item_indicator :: bsc_indicator
  bsc_item_actual :: "bsc_actual option"

record bsc_bucket = bsc_sums +
  bsc_items :: "bsc_item list"

record bsc_dashboard =
  bsc_d_period_id :: uuid
  bsc_d_period_name :: string
  bsc_d_bsc_type :: string
  bsc_d_perspectives :: "(perspective \<times> bsc_bucket) list"
  bsc_d_totals :: bsc_sums

definition bsc_sums_0 :: bsc_sums where
  "bsc_sums_0 = \<lparr>bsc_total_weight = Decimal_0, bsc_total_score = Decimal_0,
     bsc_total_active_weight = Decimal_0, bsc_total_score_akhir = Decimal_0\<rparr>"

definition bsc_bucket_0 :: bsc_bucket where
  "bsc_bucket_0 = \<lparr>bsc_total_weight = Decimal_0, bsc_total_score = Decimal_0,
     bsc_total_active_weight = Decimal_0, bsc_total_score_akhir = Decimal_0, bsc_items = []\<rparr>"

text \<open>
  The actuals that the loop selects for an indicator: a query without \<^verbatim>\<open>ORDER BY\<close>.
\<close>

definition bsc_actuals_of :: "db \<Rightarrow> bsc_indicator \<Rightarrow> bsc_actual list" where
  "bsc_actuals_of s indicator =
     filter (\<lambda>a. ba_indicator_id a = uid indicator \<and> \<not> is_deleted a) (bsc_actuals s)"

text \<open>One turn of the loop \<^verbatim>\<open>for indicator in indicators\<close>.\<close>

definition bsc_dashboard_step ::
  "db \<Rightarrow> (perspective \<times> bsc_bucket) list \<times> bsc_sums \<Rightarrow> bsc_indicator
     \<Rightarrow> (perspective \<times> bsc_bucket) list \<times> bsc_sums" where
  "bsc_dashboard_step s acc indicator =
     (let (data, totals) = acc;
          actuals = bsc_actuals_of s indicator;
          perspective = bi_perspective indicator;
          bucket = (case map_of data perspective of None \<Rightarrow> bsc_bucket_0 | Some b \<Rightarrow> b);
          item = \<lparr>bsc_item_indicator = indicator, bsc_item_actual = first actuals\<rparr>;
          bucket1 = bucket\<lparr>bsc_items := bsc_items bucket @ [item],
                      bsc_total_weight := dec_add (bsc_total_weight bucket) (bi_weight indicator)\<rparr>;
          totals1 = totals\<lparr>bsc_total_weight :=
                      dec_add (bsc_total_weight totals) (bi_weight indicator)\<rparr>
      in case first actuals of
           None \<Rightarrow> (AList.update perspective bucket1 data, totals1)
         | Some actual \<Rightarrow>
             (AList.update perspective
                (bucket1\<lparr>bsc_total_score := dec_add (bsc_total_score bucket1) (ba_score actual),
                   bsc_total_active_weight :=
                     dec_add (bsc_total_active_weight bucket1) (ba_active_weight actual),
                   bsc_total_score_akhir :=
                     dec_add (bsc_total_score_akhir bucket1) (ba_score_akhir actual)\<rparr>) data,
              totals1\<lparr>bsc_total_score := dec_add (bsc_total_score totals1) (ba_score actual),
                 bsc_total_active_weight :=
                   dec_add (bsc_total_active_weight totals1) (ba_active_weight actual),
                 bsc_total_score_akhir :=
                   dec_add (bsc_total_score_akhir totals1) (ba_score_akhir actual)\<rparr>))"

definition bsc_get_dashboard_data :: "db \<Rightarrow> uuid \<Rightarrow> bsc_dashboard" where
  "bsc_get_dashboard_data s period_id =
     (let indicators = bsc_get_by_period s period_id;
          (data, totals) = foldl (bsc_dashboard_step s) ([], bsc_sums_0) indicators
      in \<lparr>bsc_d_period_id = period_id, bsc_d_period_name = ''Jan-25'',
          bsc_d_bsc_type = ''Monthly'', bsc_d_perspectives = data, bsc_d_totals = totals\<rparr>)"

text \<open>\<^verbatim>\<open>BSCActualRepository.get_latest_by_indicator\<close>\<close>

definition bsc_get_latest_by_indicator :: "db \<Rightarrow> uuid \<Rightarrow> bsc_actual option" where
  "bsc_get_latest_by_indicator s indicator_id =
     first (order_by_desc created_at
       (filter (\<lambda>a. ba_indicator_id a = indicator_id \<and> \<not> is_deleted a) (bsc_actuals s)))"

subsection \<open>\<^verbatim>\<open>MPMIndicatorRepository\<close>\<close>

definition mpm_get_by_kpi :: "db \<Rightarrow> string \<Rightarrow> uuid \<Rightarrow> mpm_indicator option" where
  "mpm_get_by_kpi s kpi period_id =
     first (filter (\<lambda>i. mi_kpi i = kpi \<and> mi_period_id i = period_id \<and> \<not> is_deleted i)
       (mpm_indicators s))"

text \<open>
  The sort key of \<^verbatim>\<open>ORDER BY perspective, kpi_number\<close>: the perspectives in the order in
  which the enumeration declares them, nulls last.
\<close>

fun perspective_rank :: "perspective option \<Rightarrow> nat" where
  "perspective_rank (Some FINANCIAL) = 0"
| "perspective_rank (Some CUSTOMER) = 1"
| "perspective_rank (Some INTERNAL_BUSINESS_PROCESS) = 2"
| "perspective_rank (Some LEARNING_GROWTH) = 3"
| "perspective_rank None = 4"

fun nulls_last :: "int option \<Rightarrow> nat \<times> int" where
  "nulls_last (Some n) = (0, n)"
| "nulls_last None = (1, 0)"

definition mpm_get_by_period :: "db \<Rightarrow> uuid \<Rightarrow> mpm_indicator list" where
  "mpm_get_by_period s period_id =
     order_by (\<lambda>i. (perspective_rank (mi_perspective i), nulls_last (mi_kpi_number i)))
       (filter (\<lambda>i. mi_period_id i = period_id \<and> \<not> is_deleted i) (mpm_indicators s))"

text \<open>
  The key of an entry of \<^verbatim>\<open>data\<close>: \<^verbatim>\<open>indicator.perspective or "Other"\<close>.
\<close>

datatype mpm_key = Perspective perspective | Other

fun mpm_key_of :: "perspective option \<Rightarrow> mpm_key" where
  "mpm_key_of None = Other"
| "mpm_key_of (Some p) = Perspective p"

record mpm_sums =
  mpm_total_weight :: decimal
  mpm_total_score :: decimal

text \<open>
  An item of the MPM dashboard; its dictionary of monthly targets is left out with the
  table of monthly targets.
\<close>

record mpm_item =
  mpm_item_indicator :: mpm_indicator
  mpm_item_actual :: "mpm_actual option"
  mpm_item_action_plans :: "mpm_action_plan list"

record mpm_bucket = mpm_sums +
  mpm_items :: "mpm_item list"

record mpm_dashboard =
  mpm_d_period_id :: uuid
  mpm_d_period_name :: string
  mpm_d_perspectives :: "(mpm_key \<times> mpm_bucket) list"
  mpm_d_totals :: mpm_sums

definition mpm_sums_0 :: mpm_sums where
  "mpm_sums_0 = \<lparr>mpm_total_weight = Decimal_0, mpm_total_score = Decimal_0\<rparr>"

definition mpm_bucket_0 :: mpm_bucket where
  "mpm_bucket_0 = \<lparr>mpm_total_weight = Decimal_0, mpm_total_score = Decimal_0, mpm_items = []\<rparr>"

text \<open>The latest actual of an indicator, as the loop queries it.\<close>

definition mpm_latest_actual :: "db \<Rightarrow> mpm_indicator \<Rightarrow> mpm_actual option" where
  "mpm_latest_actual s indicator =
     first (order_by_desc created_at
       (filter (\<lambda>a. ma_indicator_id a = uid indicator \<and> \<not> is_deleted a) (mpm_actuals s)))"

definition mpm_dashboard_step ::
  "db \<Rightarrow> (mpm_key \<times> mpm_bucket) list \<times> mpm_sums \<Rightarrow> mpm_indicator
     \<Rightarrow> (mpm_key \<times> mpm_bucket) list \<times> mpm_sums" where
  "mpm_dashboard_step s acc indicator =
     (let (data, totals) = acc;
          perspective = mpm_key_of (mi_perspective indicator);
          bucket = (case map_of data perspective of None \<Rightarrow> mpm_bucket_0 | Some b \<Rightarrow> b);
          actual = mpm_latest_actual s indicator;
          action_plans = filter (\<lambda>p. ap_indicator_id p = uid indicator \<and> \<not> is_deleted p)
                           (mpm_action_plans s);
          item = \<lparr>mpm_item_indicator = indicator, mpm_item_actual = actual,
                   mpm_item_action_plans = action_plans\<rparr>;
          bucket1 = bucket\<lparr>mpm_items := mpm_items bucket @ [item],
                      mpm_total_weight := dec_add (mpm_total_weight bucket) (mi_weight indicator)\<rparr>;
          totals1 = totals\<lparr>mpm_total_weight :=
                      dec_add (mpm_total_weight totals) (mi_weight indicator)\<rparr>
      in case actual of
           None \<Rightarrow> (AList.update perspective bucket1 data, totals1)
         | Some a \<Rightarrow>
             (AList.update perspective
                (bucket1\<lparr>mpm_total_score := dec_add (mpm_total_score bucket1) (ma_score a)\<rparr>) data,
              totals1\<lparr>mpm_total_score := dec_add (mpm_total_score totals1) (ma_score a)\<rparr>))"

definition mpm_get_dashboard_data :: "db \<Rightarrow> uuid \<Rightarrow> mpm_dashboard" where
  "mpm_get_dashboard_data s period_id =
     (let indicators = mpm_get_by_period s period_id;
          (data, totals) = foldl (mpm_dashboard_step s) ([], mpm_sums_0) indicators
      in \<lparr>mpm_d_period_id = period_id, mpm_d_period_name = ''Jan-25'',
          mpm_d_perspectives = data, mpm_d_totals = totals\<rparr>)"

subsection \<open>What the sums of a dashboard are to be\<close>

text \<open>
  The sum of a list of decimals, as \<^verbatim>\<open>+=\<close> accumulates it from \<^verbatim>\<open>Decimal(0)\<close>; the
  actuals of those indicators of a list that have one; and, for a list of indicators, the
  sums that the claims give: the weight of every indicator, and the scores of the paired
  actuals of those indicators that have one.
\<close>

definition dec_sum :: "decimal list \<Rightarrow> decimal" where
  "dec_sum xs = foldl dec_add Decimal_0 xs"

definition bsc_paired :: "db \<Rightarrow> bsc_indicator \<Rightarrow> bsc_actual option" where
  "bsc_paired s indicator = first (bsc_actuals_of s indicator)"

definition bsc_bucket_spec :: "db \<Rightarrow> bsc_indicator list \<Rightarrow> bsc_bucket" where
  "bsc_bucket_spec s inds =
     \<lparr>bsc_total_weight = dec_sum (map bi_weight inds),
      bsc_total_score = dec_sum (map ba_score (List.map_filter (bsc_paired s) inds)),
      bsc_total_active_weight = dec_sum (map ba_active_weight (List.map_filter (bsc_paired s) inds)),
      bsc_total_score_akhir = dec_sum (map ba_score_akhir (List.map_filter (bsc_paired s) inds)),
      bsc_items = map (\<lambda>i. \<lparr>bsc_item_indicator = i, bsc_item_actual = bsc_paired s i\<rparr>) inds\<rparr>"

definition mpm_item_of :: "db \<Rightarrow> mpm_indicator \<Rightarrow> mpm_item" where
  "mpm_item_of s i =
     \<lparr>mpm_item_indicator = i, mpm_item_actual = mpm_latest_actual s i,
      mpm_item_action_plans =
        filter (\<lambda>p. ap_indicator_id p = uid i \<and> \<not> is_deleted p) (mpm_action_plans s)\<rparr>"

definition mpm_bucket_spec :: "db \<Rightarrow> mpm_indicator list \<Rightarrow> mpm_bucket" where
  "mpm_bucket_spec s inds =
     \<lparr>mpm_total_weight = dec_sum (map mi_weight inds),
      mpm_total_score = dec_sum (map ma_score (List.map_filter (mpm_latest_actual s) inds)),
      mpm_items = map (mpm_item_of s) inds\<rparr>"

definition bsc_sums_spec :: "db \<Rightarrow> bsc_indicator list \<Rightarrow> bsc_sums" where
  "bsc_sums_spec s inds =
     \<lparr>bsc_total_weight = dec_sum (map bi_weight inds),
      bsc_total_score = dec_sum (map ba_score (List.map_filter (bsc_paired s) inds)),
      bsc_total_active_weight = dec_sum (map ba_active_weight (List.map_filter (bsc_paired s) inds)),
      bsc_total_score_akhir = dec_sum (map ba_score_akhir (List.map_filter (bsc_paired s) inds))\<rparr>"

definition mpm_sums_spec :: "db \<Rightarrow> mpm_indicator list \<Rightarrow> mpm_sums" where
  "mpm_sums_spec s inds =
     \<lparr>mpm_total_weight = dec_sum (map mi_weight inds),
      mpm_total_score = dec_sum (map ma_score (List.map_filter (mpm_latest_actual s) inds))\<rparr>"

text \<open>The indicators that a dashboard includes: those of the items of its entries.\<close>

definition bsc_dashboard_indicators :: "bsc_dashboard \<Rightarrow> bsc_indicator list" where
  "bsc_dashboard_indicators d =
     concat (map (\<lambda>(p, b). map bsc_item_indicator (bsc_items b)) (bsc_d_perspectives d))"

definition mpm_dashboard_indicators :: "mpm_dashboard \<Rightarrow> mpm_indicator list" where
  "mpm_dashboard_indicators d =
     concat (map (\<lambda>(k, b). map mpm_item_indicator (mpm_items b)) (mpm_d_perspectives d))"

section \<open>Action plans and quarterly data\<close>

text \<open>
  \<^verbatim>\<open>MPMActionPlanRepository.calculate_status\<close>. The query keeps the quarterly data of the plan
  that are not deleted and have an actual value, ordered by quarter label, descending; quarter
  labels are strings in their lexicographic order. The first row decides. Its actual value
  is not \<^verbatim>\<open>None\<close> by the query; comparing \<^verbatim>\<open>None\<close> with a decimal would raise \<^verbatim>\<open>TypeError\<close>.
  \<^verbatim>\<open>Decimal('0.8')\<close> is the decimal \<open>8 * 10 ^ - 1\<close>.
\<close>

definition reported_quarters :: "db \<Rightarrow> uuid \<Rightarrow> mpm_quarterly_data list" where
  "reported_quarters s action_plan_id =
     filter (\<lambda>q. qd_action_plan_id q = action_plan_id \<and> qd_actual_value q \<noteq> None
                 \<and> \<not> is_deleted q) (mpm_quarterly_datas s)"

definition calculate_status :: "db \<Rightarrow> uuid \<Rightarrow> error + mpm_status" where
  "calculate_status s action_plan_id =
     (case first (order_by_desc qd_quarter (reported_quarters s action_plan_id)) of
        None \<Rightarrow> Inr ON_TRACK
      | Some latest_quarter \<Rightarrow>
          (case qd_actual_value latest_quarter of
             None \<Rightarrow> Inl TypeError
           | Some actual_value \<Rightarrow>
               if dec_le (qd_target_value latest_quarter) actual_value then Inr ON_TRACK
               else if dec_le (dec_mul (qd_target_value latest_quarter) (Dec 8 (- 1))) actual_value
               then Inr AT_RISK
               else Inr OFF_TRACK))"

text \<open>\<^verbatim>\<open>MPMActionPlanService.update_action_plan_status\<close>\<close>

definition update_action_plan_status ::
  "datetime \<Rightarrow> uuid \<Rightarrow> db \<Rightarrow> (error + mpm_action_plan) \<times> db" where
  "update_action_plan_status now plan_id s =
     (case get_or_404 (mpm_action_plans s) plan_id of
        Inl e \<Rightarrow> (Inl e, s)
      | Inr db_plan \<Rightarrow>
          (case calculate_status s plan_id of
             Inl e \<Rightarrow> (Inl e, s)
           | Inr status \<Rightarrow>
               (let row = db_plan\<lparr>ap_status := status, updated_at := Some now\<rparr>
                in (Inr row, s\<lparr>mpm_action_plans := update (mpm_action_plans s) row\<rparr>))))"

text \<open>\<^verbatim>\<open>MPMQuarterlyDataRepository.get_by_quarter\<close>\<close>

definition get_by_quarter :: "db \<Rightarrow> uuid \<Rightarrow> string \<Rightarrow> mpm_quarterly_data option" where
  "get_by_quarter s action_plan_id quarter =
     first (filter (\<lambda>q. qd_action_plan_id q = action_plan_id \<and> qd_quarter q = quarter
                        \<and> \<not> is_deleted q) (mpm_quarterly_datas s))"

record mpm_quarterly_data_create =
  qc_quarter :: string
  qc_target_value :: decimal
  qc_actual_value :: "decimal option"
  qc_action_plan_id :: uuid

record mpm_quarterly_data_update =
  qu_target_value :: "decimal field"
  qu_actual_value :: "decimal field"

text \<open>
  \<^verbatim>\<open>MPMQuarterlyDataService.create_quarterly_data\<close>. The row is committed before the status
  of the plan is refreshed, so it stays when the refresh fails.
\<close>

definition create_quarterly_data ::
  "uuid \<Rightarrow> datetime \<Rightarrow> mpm_quarterly_data_create \<Rightarrow> db \<Rightarrow> (error + mpm_quarterly_data) \<times> db" where
  "create_quarterly_data new_id now data_in s =
     (case get_by_quarter s (qc_action_plan_id data_in) (qc_quarter data_in) of
        Some existing_data \<Rightarrow> (Inl BadRequest, s)
      | None \<Rightarrow>
          (let quarterly_data =
                 \<lparr>uid = new_id, created_at = now, updated_at = None, is_deleted = False,
                  qd_quarter = qc_quarter data_in, qd_target_value = qc_target_value data_in,
                  qd_actual_value = qc_actual_value data_in,
                  qd_action_plan_id = qc_action_plan_id data_in\<rparr>;
               s1 = s\<lparr>mpm_quarterly_datas := create (mpm_quarterly_datas s) quarterly_data\<rparr>
           in if qc_actual_value data_in \<noteq> None then
                (case update_action_plan_status now (qc_action_plan_id data_in) s1 of
                   (Inl e, s2) \<Rightarrow> (Inl e, s2)
                 | (Inr plan, s2) \<Rightarrow> (Inr quarterly_data, s2))
              else (Inr quarterly_data, s1)))"

definition mpm_quarterly_data_setattr ::
  "mpm_quarterly_data_update \<Rightarrow> datetime \<Rightarrow> mpm_quarterly_data \<Rightarrow> error + mpm_quarterly_data" where
  "mpm_quarterly_data_setattr u now r =
     (case set_required (qu_target_value u) (qd_target_value r) of
        Inl e \<Rightarrow> Inl e
      | Inr tv \<Rightarrow>
          Inr (r\<lparr>qd_target_value := tv,
                 qd_actual_value := set_nullable (qu_actual_value u) (qd_actual_value r),
                 updated_at := Some now\<rparr>))"

text \<open>\<^verbatim>\<open>MPMQuarterlyDataService.update_quarterly_data\<close>\<close>

definition update_quarterly_data ::
  "datetime \<Rightarrow> uuid \<Rightarrow> mpm_quarterly_data_update \<Rightarrow> db \<Rightarrow> (error + mpm_quarterly_data) \<times> db" where
  "update_quarterly_data now data_id data_in s =
     (case get_or_404 (mpm_quarterly_datas s) data_id of
        Inl e \<Rightarrow> (Inl e, s)
      | Inr db_data \<Rightarrow>
          (case mpm_quarterly_data_setattr data_in now db_data of
             Inl e \<Rightarrow> (Inl e, s)
           | Inr quarterly_data \<Rightarrow>
               (let s1 = s\<lparr>mpm_quarterly_datas := update (mpm_quarterly_datas s) quarterly_data\<rparr>
                in if attr (qu_actual_value data_in) \<noteq> None then
                     (case update_action_plan_status now (qd_action_plan_id quarterly_data) s1 of
                        (Inl e, s2) \<Rightarrow> (Inl e, s2)
                      | (Inr plan, s2) \<Rightarrow> (Inr quarterly_data, s2))
                   else (Inr quarterly_data, s1))))"

text \<open>
  The classification that the claims give for a target and an actual value, on the values
  of the decimals; the product with 0.8 is the decimal product.
\<close>

definition status_of :: "decimal \<Rightarrow> decimal \<Rightarrow> mpm_status" where
  "status_of target_value actual_value =
     (if dec_val target_value \<le> dec_val actual_value then ON_TRACK
      else if dec_val (dec_mul target_value (Dec 8 (- 1))) \<le> dec_val actual_value then AT_RISK
      else OFF_TRACK)"

section \<open>Periods\<close>

text \<open>\<^verbatim>\<open>PeriodRepository.get_active_period\<close>\<close>

definition get_active_period :: "db \<Rightarrow> period option" where
  "get_active_period s =
     first (filter (\<lambda>p. p_status p = ACTIVE \<and> \<not> is_deleted p) (periods s))"

text \<open>
  \<^verbatim>\<open>PeriodRepository.update_status\<close>. Its parameter \<^verbatim>\<open>status\<close> hides the module \<^verbatim>\<open>status\<close> of
  the web framework, so the expression \<^verbatim>\<open>status.HTTP_400_BAD_REQUEST\<close> that is to build the
  rejection looks the attribute up in the requested period status and raises
  \<^verbatim>\<open>AttributeError\<close>; nothing has been written by then.
\<close>

definition update_status :: "datetime \<Rightarrow> uuid \<Rightarrow> period_status \<Rightarrow> db \<Rightarrow> (error + period) \<times> db" where
  "update_status now i status s =
     (case get_or_404 (periods s) i of
        Inl e \<Rightarrow> (Inl e, s)
      | Inr db_obj \<Rightarrow>
          if status = ACTIVE
             \<and> (case get_active_period s of None \<Rightarrow> False | Some active_period \<Rightarrow> uid active_period \<noteq> i)
          then (Inl AttributeError, s)
          else (let row = db_obj\<lparr>p_status := status, updated_at := Some now\<rparr>
                in (Inr row, s\<lparr>periods := update (periods s) row\<rparr>)))"

text \<open>
  The invariant of the periods: the primary key is unique, and at most one period that is
  not deleted is active. A run of \<open>update_status\<close> calls, whatever each of them returns.
\<close>

definition one_active_period :: "db \<Rightarrow> bool" where
  "one_active_period s \<longleftrightarrow>
     distinct (map uid (periods s))
     \<and> length (filter (\<lambda>p. p_status p = ACTIVE \<and> \<not> is_deleted p) (periods s)) \<le> 1"

fun update_statuses :: "(datetime \<times> uuid \<times> period_status) list \<Rightarrow> db \<Rightarrow> db" where
  "update_statuses [] s = s"
| "update_statuses ((now, i, status) # calls) s =
     update_statuses calls (snd (update_status now i status s))"

section \<open>Indicators\<close>

record bsc_indicator_create =
  bic_code :: string
  bic_perspective :: perspective
  bic_weight :: decimal
  bic_period_id :: uuid

record bsc_indicator_update =
  biu_perspective :: "perspective field"
  biu_code :: "string field"
  biu_weight :: "decimal field"
  biu_period_id :: "uuid field"
  biu_is_active :: "bool field"

text \<open>\<^verbatim>\<open>BSCIndicatorService.create_indicator\<close>\<close>

definition bsc_create_indicator ::
  "uuid \<Rightarrow> datetime \<Rightarrow> bsc_indicator_create \<Rightarrow> db \<Rightarrow> (error + bsc_indicator) \<times> db" where
  "bsc_create_indicator new_id now indicator_in s =
     (case bsc_get_by_code s (bic_code indicator_in) (bic_period_id indicator_in) of
        Some existing_indicator \<Rightarrow> (Inl BadRequest, s)
      | None \<Rightarrow>
          (let row = \<lparr>uid = new_id, created_at = now, updated_at = None, is_deleted = False,
                      bi_code = bic_code indicator_in,
                      bi_perspective = bic_perspective indicator_in,
                      bi_weight = bic_weight indicator_in, bi_is_active = True,
                      bi_period_id = bic_period_id indicator_in\<rparr>
           in (Inr row, s\<lparr>bsc_indicators := create (bsc_indicators s) row\<rparr>)))"

definition bsc_indicator_setattr ::
  "bsc_indicator_update \<Rightarrow> datetime \<Rightarrow> bsc_indicator \<Rightarrow> error + bsc_indicator" where
  "bsc_indicator_setattr u now r =
     (case set_required (biu_perspective u) (bi_perspective r) of Inl e \<Rightarrow> Inl e | Inr perspective \<Rightarrow>
      case set_required (biu_code u) (bi_code r) of Inl e \<Rightarrow> Inl e | Inr code \<Rightarrow>
      case set_required (biu_weight u) (bi_weight r) of Inl e \<Rightarrow> Inl e | Inr weight \<Rightarrow>
      case set_required (biu_period_id u) (bi_period_id r) of Inl e \<Rightarrow> Inl e | Inr period_id \<Rightarrow>
      case set_required (biu_is_active u) (bi_is_active r) of Inl e \<Rightarrow> Inl e | Inr is_active \<Rightarrow>
        Inr (r\<lparr>bi_perspective := perspective, bi_code := code, bi_weight := weight,
               bi_period_id := period_id, bi_is_active := is_active, updated_at := Some now\<rparr>))"

text \<open>
  \<^verbatim>\<open>BSCIndicatorService.update_indicator\<close>. The duplicate check runs when the request has a code
  that is not empty and differs from the stored one; \<^verbatim>\<open>indicator_in.period_id or
  db_indicator.period_id\<close> is the period of the request when it has one.
\<close>

definition bsc_update_indicator ::
  "datetime \<Rightarrow> uuid \<Rightarrow> bsc_indicator_update \<Rightarrow> db \<Rightarrow> (error + bsc_indicator) \<times> db" where
  "bsc_update_indicator now indicator_id indicator_in s =
     (case get_or_404 (bsc_indicators s) indicator_id of
        Inl e \<Rightarrow> (Inl e, s)
      | Inr db_indicator \<Rightarrow>
          (let duplicate =
                 (case attr (biu_code indicator_in) of
                    None \<Rightarrow> False
                  | Some code \<Rightarrow>
                      code \<noteq> [] \<and> code \<noteq> bi_code db_indicator
                      \<and> (let period_id = (case attr (biu_period_id indicator_in) of
                                             None \<Rightarrow> bi_period_id db_indicator
                                           | Some p \<Rightarrow> p)
                         in case bsc_get_by_code s code period_id of
                              None \<Rightarrow> False
                            | Some existing_indicator \<Rightarrow> uid existing_indicator \<noteq> indicator_id))
           in if duplicate then (Inl BadRequest, s)
              else (case bsc_indicator_setattr indicator_in now db_indicator of
                      Inl e \<Rightarrow> (Inl e, s)
                    | Inr row \<Rightarrow> (Inr row, s\<lparr>bsc_indicators := update (bsc_indicators s) row\<rparr>))))"

record mpm_indicator_create =
  mic_kpi :: string
  mic_weight :: decimal
  mic_kpi_number :: "int option"
  mic_perspective :: "perspective option"
  mic_period_id :: uuid

record mpm_indicator_update =
  miu_kpi :: "string field"
  miu_weight :: "decimal field"
  miu_kpi_number :: "int field"
  miu_perspective :: "perspective field"
  miu_is_active :: "bool field"

text \<open>
  \<^verbatim>\<open>MPMIndicatorRepository.get_next_kpi_number\<close>: one more than the greatest number in the
  perspective and period, \<^verbatim>\<open>max(...) or 0\<close> when there is none.
\<close>

definition get_next_kpi_number :: "db \<Rightarrow> perspective \<Rightarrow> uuid \<Rightarrow> int" where
  "get_next_kpi_number s perspective period_id =
     (let numbers = List.map_filter mi_kpi_number
            (filter (\<lambda>i. mi_perspective i = Some perspective \<and> mi_period_id i = period_id
                         \<and> \<not> is_deleted i) (mpm_indicators s))
      in (if numbers = [] then 0 else Max (set numbers)) + 1)"

text \<open>\<^verbatim>\<open>MPMIndicatorService.create_indicator\<close>\<close>

definition mpm_create_indicator ::
  "uuid \<Rightarrow> datetime \<Rightarrow> mpm_indicator_create \<Rightarrow> db \<Rightarrow> (error + mpm_indicator) \<times> db" where
  "mpm_create_indicator new_id now indicator_in s =
     (case mpm_get_by_kpi s (mic_kpi indicator_in) (mic_period_id indicator_in) of
        Some existing_indicator \<Rightarrow> (Inl BadRequest, s)
      | None \<Rightarrow>
          (let kpi_number =
                 (case mic_perspective indicator_in of
                    Some perspective \<Rightarrow>
                      Some (get_next_kpi_number s perspective (mic_period_id indicator_in))
                  | None \<Rightarrow> mic_kpi_number indicator_in);
               row = \<lparr>uid = new_id, created_at = now, updated_at = None, is_deleted = False,
                      mi_kpi = mic_kpi indicator_in, mi_weight = mic_weight indicator_in,
                      mi_kpi_number = kpi_number,
                      mi_perspective = mic_perspective indicator_in, mi_is_active = True,
                      mi_period_id = mic_period_id indicator_in\<rparr>
           in (Inr row, s\<lparr>mpm_indicators := create (mpm_indicators s) row\<rparr>)))"

definition mpm_indicator_setattr ::
  "mpm_indicator_update \<Rightarrow> datetime \<Rightarrow> mpm_indicator \<Rightarrow> error + mpm_indicator" where
  "mpm_indicator_setattr u now r =
     (case set_required (miu_kpi u) (mi_kpi r) of Inl e \<Rightarrow> Inl e | Inr kpi \<Rightarrow>
      case set_required (miu_weight u) (mi_weight r) of Inl e \<Rightarrow> Inl e | Inr weight \<Rightarrow>
      case set_required (miu_is_active u) (mi_is_active r) of Inl e \<Rightarrow> Inl e | Inr is_active \<Rightarrow>
        Inr (r\<lparr>mi_kpi := kpi, mi_weight := weight,
               mi_kpi_number := set_nullable (miu_kpi_number u) (mi_kpi_number r),
               mi_perspective := set_nullable (miu_perspective u) (mi_perspective r),
               mi_is_active := is_active, updated_at := Some now\<rparr>))"

text \<open>
  \<^verbatim>\<open>MPMIndicatorService.update_indicator\<close>. The update schema has no period, so the duplicate
  check looks in the period of the stored indicator.
\<close>

definition mpm_update_indicator ::
  "datetime \<Rightarrow> uuid \<Rightarrow> mpm_indicator_update \<Rightarrow> db \<Rightarrow> (error + mpm_indicator) \<times> db" where
  "mpm_update_indicator now indicator_id indicator_in s =
     (case get_or_404 (mpm_indicators s) indicator_id of
        Inl e \<Rightarrow> (Inl e, s)
      | Inr db_indicator \<Rightarrow>
          (let duplicate =
                 (case attr (miu_kpi indicator_in) of
                    None \<Rightarrow> False
                  | Some kpi \<Rightarrow>
                      kpi \<noteq> [] \<and> kpi \<noteq> mi_kpi db_indicator
                      \<and> (case mpm_get_by_kpi s kpi (mi_period_id db_indicator) of
                           None \<Rightarrow> False
                         | Some existing_indicator \<Rightarrow> uid existing_indicator \<noteq> indicator_id))
           in if duplicate then (Inl BadRequest, s)
              else (case mpm_indicator_setattr indicator_in now db_indicator of
                      Inl e \<Rightarrow> (Inl e, s)
                    | Inr row \<Rightarrow> (Inr row, s\<lparr>mpm_indicators := update (mpm_indicators s) row\<rparr>))))"

text \<open>
  The uniqueness that the indicators are to keep: no two non-deleted BSC indicators with
  different identifiers share code and period, and no two MPM indicators share KPI name and
  period.
\<close>

definition bsc_duplicates :: "db \<Rightarrow> (bsc_indicator \<times> bsc_indicator) list" where
  "bsc_duplicates s =
     filter (\<lambda>(a, b). uid a \<noteq> uid b \<and> bi_code a = bi_code b \<and> bi_period_id a = bi_period_id b)
       (List.product (filter (\<lambda>i. \<not> is_deleted i) (bsc_indicators s))
          (filter (\<lambda>i. \<not> is_deleted i) (bsc_indicators s)))"

definition mpm_duplicates :: "db \<Rightarrow> (mpm_indicator \<times> mpm_indicator) list" where
  "mpm_duplicates s =
     filter (\<lambda>(a, b). uid a \<noteq> uid b \<and> mi_kpi a = mi_kpi b \<and> mi_period_id a = mi_period_id b)
       (List.product (filter (\<lambda>i. \<not> is_deleted i) (mpm_indicators s))
          (filter (\<lambda>i. \<not> is_deleted i) (mpm_indicators s)))"

section \<open>Concrete databases and requests\<close>










text \<open>
  A BSC indicator of weight 30 with one actual of achievement 80, and the requests that
  record an achievement of 90 and correct the recorded one to 90.
\<close>

definition bsc_ind_30 :: bsc_indicator where
  "bsc_ind_30 = \<lparr>uid = 1, created_at = 0, updated_at = None, is_deleted = False,
     bi_code = ''F1'', bi_perspective = FINANCIAL, bi_weight = Dec 30 0, bi_is_active = True,
     bi_period_id = 1\<rparr>"

definition bsc_act_80 :: bsc_actual where
  "bsc_act_80 = \<lparr>uid = 5, created_at = 3, updated_at = None, is_deleted = False,
     ba_actual_value = ''8'', ba_achievement = Dec 80 0, ba_score = Dec 240 (- 1),
     ba_active_weight = Dec 60 0, ba_total_score = Dec 4800000000000000266453525910 (- 27),
     ba_score_akhir = Dec 4800000000000000266453525910 (- 27), ba_indicator_id = 1\<rparr>"

definition db_bsc :: db where
  "db_bsc = \<lparr>periods = [], bsc_indicators = [bsc_ind_30], bsc_actuals = [bsc_act_80],
     mpm_indicators = [], mpm_action_plans = [], mpm_quarterly_datas = [], mpm_actuals = []\<rparr>"

definition bsc_in_90 :: bsc_actual_create where
  "bsc_in_90 = \<lparr>bac_actual_value = ''9'', bac_achievement = Dec 90 0, bac_indicator_id = 1\<rparr>"









text \<open>
  A database for the dashboards of period 1. Under either framework it holds an indicator
  of weight 20 with two actuals, recorded at times 5 and 8 and stored in that order, and an
  inactive indicator of weight 30 without an actual; further an indicator of another
  period and a soft-deleted one.
\<close>

definition bsc_ind_20 :: bsc_indicator where
  "bsc_ind_20 = \<lparr>uid = 1, created_at = 0, updated_at = None, is_deleted = False,
     bi_code = ''F1'', bi_perspective = FINANCIAL, bi_weight = Dec 20 0, bi_is_active = True,
     bi_period_id = 1\<rparr>"

definition bsc_ind_inactive :: bsc_indicator where
  "bsc_ind_inactive = \<lparr>uid = 2, created_at = 0, updated_at = None, is_deleted = False,
     bi_code = ''F2'', bi_perspective = FINANCIAL, bi_weight = Dec 30 0, bi_is_active = False,
     bi_period_id = 1\<rparr>"

definition bsc_ind_elsewhere :: bsc_indicator where
  "bsc_ind_elsewhere = \<lparr>uid = 3, created_at = 0, updated_at = None, is_deleted = False,
     bi_code = ''F1'', bi_perspective = CUSTOMER, bi_weight = Dec 40 0, bi_is_active = True,
     bi_period_id = 2\<rparr>"

definition bsc_ind_deleted :: bsc_indicator where
  "bsc_ind_deleted = \<lparr>uid = 4, created_at = 0, updated_at = Some 2, is_deleted = True,
     bi_code = ''F3'', bi_perspective = CUSTOMER, bi_weight = Dec 10 0, bi_is_active = True,
     bi_period_id = 1\<rparr>"

definition bsc_act_old :: bsc_actual where
  "bsc_act_old = \<lparr>uid = 10, created_at = 5, updated_at = None, is_deleted = False,
     ba_actual_value = ''5'', ba_achievement = Dec 50 0, ba_score = Dec 100 (- 1),
     ba_active_weight = Dec 40 0, ba_total_score = Dec 2000000000000000111022302463 (- 27),
     ba_score_akhir = Dec 2000000000000000111022302463 (- 27), ba_indicator_id = 1\<rparr>"

definition bsc_act_new :: bsc_actual where
  "bsc_act_new = \<lparr>uid = 11, created_at = 8, updated_at = None, is_deleted = False,
     ba_actual_value = ''7'', ba_achievement = Dec 75 0, ba_score = Dec 1500 (- 2),
     ba_active_weight = Dec 40 0, ba_total_score = Dec 3000000000000000166533453694 (- 27),
     ba_score_akhir = Dec 3000000000000000166533453694 (- 27), ba_indicator_id = 1\<rparr>"

definition mpm_ind_20 :: mpm_indicator where
  "mpm_ind_20 = \<lparr>uid = 1, created_at = 0, updated_at = None, is_deleted = False,
     mi_kpi = ''Revenue'', mi_weight = Dec 20 0, mi_kpi_number = Some 1,
     mi_perspective = Some FINANCIAL, mi_is_active = True, mi_period_id = 1\<rparr>"

definition mpm_ind_inactive :: mpm_indicator where
  "mpm_ind_inactive = \<lparr>uid = 2, created_at = 0, updated_at = None, is_deleted = False,
     mi_kpi = ''Training'', mi_weight = Dec 30 0, mi_kpi_number = None,
     mi_perspective = None, mi_is_active = False, mi_period_id = 1\<rparr>"

definition mpm_ind_elsewhere :: mpm_indicator where
  "mpm_ind_elsewhere = \<lparr>uid = 3, created_at = 0, updated_at = None, is_deleted = False,
     mi_kpi = ''Revenue'', mi_weight = Dec 40 0, mi_kpi_number = Some 1,
     mi_perspective = Some CUSTOMER, mi_is_active = True, mi_period_id = 2\<rparr>"

definition mpm_ind_deleted :: mpm_indicator where
  "mpm_ind_deleted = \<lparr>uid = 4, created_at = 0, updated_at = Some 2, is_deleted = True,
     mi_kpi = ''Margin'', mi_weight = Dec 10 0, mi_kpi_number = Some 2,
     mi_perspective = Some CUSTOMER, mi_is_active = True, mi_period_id = 1\<rparr>"

definition mpm_act_old :: mpm_actual where
  "mpm_act_old = \<lparr>uid = 10, created_at = 5, updated_at = None, is_deleted = False,
     ma_actual_value = Dec 5 0, ma_achievement = Dec 50 0, ma_score = Dec 10 0,
     ma_indicator_id = 1\<rparr>"

definition mpm_act_new :: mpm_actual where
  "mpm_act_new = \<lparr>uid = 11, created_at = 8, updated_at = None, is_deleted = False,
     ma_actual_value = Dec 7 0, ma_achievement = Dec 75 0, ma_score = Dec 15 0,
     ma_indicator_id = 1\<rparr>"

definition db_dash :: db where
  "db_dash = \<lparr>periods = [],
     bsc_indicators = [bsc_ind_20, bsc_ind_inactive, bsc_ind_elsewhere, bsc_ind_deleted],
     bsc_actuals = [bsc_act_old, bsc_act_new],
     mpm_indicators = [mpm_ind_20, mpm_ind_inactive, mpm_ind_elsewhere, mpm_ind_deleted],
     mpm_action_plans = [], mpm_quarterly_datas = [],
     mpm_actuals = [mpm_act_old, mpm_act_new]\<rparr>"

text \<open>
  The two recordings that leave the BSC actuals of \<open>db_dash\<close> behind, and the entries of
  the two dashboards of period 1.
\<close>

definition bsc_in_50 :: bsc_actual_create where
  "bsc_in_50 = \<lparr>bac_actual_value = ''5'', bac_achievement = Dec 50 0, bac_indicator_id = 1\<rparr>"

definition bsc_in_75 :: bsc_actual_create where
  "bsc_in_75 = \<lparr>bac_actual_value = ''7'', bac_achievement = Dec 75 0, bac_indicator_id = 1\<rparr>"

definition bsc_bucket_financial :: bsc_bucket where
  "bsc_bucket_financial =
     \<lparr>bsc_total_weight = Dec 50 0, bsc_total_score = Dec 100 (- 1),
      bsc_total_active_weight = Dec 40 0,
      bsc_total_score_akhir = Dec 2000000000000000111022302463 (- 27),
      bsc_items = [\<lparr>bsc_item_indicator = bsc_ind_20, bsc_item_actual = Some bsc_act_old\<rparr>,
                   \<lparr>bsc_item_indicator = bsc_ind_inactive, bsc_item_actual = None\<rparr>]\<rparr>"

definition mpm_bucket_financial :: mpm_bucket where
  "mpm_bucket_financial =
     \<lparr>mpm_total_weight = Dec 20 0, mpm_total_score = Dec 15 0,
      mpm_items = [\<lparr>mpm_item_indicator = mpm_ind_20, mpm_item_actual = Some mpm_act_new,
                    mpm_item_action_plans = []\<rparr>]\<rparr>"

definition mpm_bucket_other :: mpm_bucket where
  "mpm_bucket_other =
     \<lparr>mpm_total_weight = Dec 30 0, mpm_total_score = Dec 0 0,
      mpm_items = [\<lparr>mpm_item_indicator = mpm_ind_inactive, mpm_item_actual = None,
                    mpm_item_action_plans = []\<rparr>]\<rparr>"

text \<open>
  An action plan with the quarters Q1 (target 100, actual 100) and Q2 (target 100,
  actual 80) reported and Q3 planned, and a second plan without quarterly data. Then the
  requests that change the target of Q2 to 200, clear the actual value of Q2, and plan Q4.
\<close>

definition plan_1 :: mpm_action_plan where
  "plan_1 = \<lparr>uid = 1, created_at = 0, updated_at = None, is_deleted = False,
     ap_description = ''Open two branches'', ap_status = AT_RISK, ap_indicator_id = 1\<rparr>"

definition plan_2 :: mpm_action_plan where
  "plan_2 = \<lparr>uid = 2, created_at = 0, updated_at = None, is_deleted = False,
     ap_description = ''Train the staff'', ap_status = ON_TRACK, ap_indicator_id = 1\<rparr>"

definition quarter_1 :: mpm_quarterly_data where
  "quarter_1 = \<lparr>uid = 21, created_at = 1, updated_at = None, is_deleted = False,
     qd_quarter = ''Q1'', qd_target_value = Dec 100 0, qd_actual_value = Some (Dec 100 0),
     qd_action_plan_id = 1\<rparr>"

definition quarter_2 :: mpm_quarterly_data where
  "quarter_2 = \<lparr>uid = 22, created_at = 2, updated_at = None, is_deleted = False,
     qd_quarter = ''Q2'', qd_target_value = Dec 100 0, qd_actual_value = Some (Dec 80 0),
     qd_action_plan_id = 1\<rparr>"

definition quarter_3 :: mpm_quarterly_data where
  "quarter_3 = \<lparr>uid = 23, created_at = 3, updated_at = None, is_deleted = False,
     qd_quarter = ''Q3'', qd_target_value = Dec 100 0, qd_actual_value = None,
     qd_action_plan_id = 1\<rparr>"

definition db_plans :: db where
  "db_plans = \<lparr>periods = [], bsc_indicators = [], bsc_actuals = [],
     mpm_indicators = [mpm_ind_20], mpm_action_plans = [plan_1, plan_2],
     mpm_quarterly_datas = [quarter_1, quarter_2, quarter_3], mpm_actuals = []\<rparr>"

definition upd_target_200 :: mpm_quarterly_data_update where
  "upd_target_200 = \<lparr>qu_target_value = Value (Dec 200 0), qu_actual_value = Unset\<rparr>"

definition upd_clear_actual :: mpm_quarterly_data_update where
  "upd_clear_actual = \<lparr>qu_target_value = Unset, qu_actual_value = Null\<rparr>"

definition in_quarter_4 :: mpm_quarterly_data_create where
  "in_quarter_4 = \<lparr>qc_quarter = ''Q4'', qc_target_value = Dec 100 0, qc_actual_value = None,
     qc_action_plan_id = 1\<rparr>"

text \<open>
  An action plan whose only quarter has a target of 28 digits,
  2.222222222222222222222222222, and as actual value exactly eight tenths of it,
  1.7777777777777777777777777776.
\<close>

definition quarter_long :: mpm_quarterly_data where
  "quarter_long = \<lparr>uid = 21, created_at = 1, updated_at = None, is_deleted = False,
     qd_quarter = ''Q1'', qd_target_value = Dec 2222222222222222222222222222 (- 27),
     qd_actual_value = Some (Dec 17777777777777777777777777776 (- 28)),
     qd_action_plan_id = 1\<rparr>"

definition db_plan_long :: db where
  "db_plan_long = \<lparr>periods = [], bsc_indicators = [], bsc_actuals = [],
     mpm_indicators = [mpm_ind_20], mpm_action_plans = [plan_1],
     mpm_quarterly_datas = [quarter_long], mpm_actuals = []\<rparr>"

text \<open>
  Two BSC indicators of one perspective with weights of 28 digits,
  3.333333333333333333333333333 and 6.666666666666666666666666668.
\<close>

definition bsc_ind_long_1 :: bsc_indicator where
  "bsc_ind_long_1 = \<lparr>uid = 1, created_at = 0, updated_at = None, is_deleted = False,
     bi_code = ''F1'', bi_perspective = FINANCIAL,
     bi_weight = Dec 3333333333333333333333333333 (- 27), bi_is_active = True,
     bi_period_id = 1\<rparr>"

definition bsc_ind_long_2 :: bsc_indicator where
  "bsc_ind_long_2 = \<lparr>uid = 2, created_at = 0, updated_at = None, is_deleted = False,
     bi_code = ''F2'', bi_perspective = FINANCIAL,
     bi_weight = Dec 6666666666666666666666666668 (- 27), bi_is_active = True,
     bi_period_id = 1\<rparr>"

definition db_dash_long :: db where
  "db_dash_long = \<lparr>periods = [], bsc_indicators = [bsc_ind_long_1, bsc_ind_long_2],
     bsc_actuals = [], mpm_indicators = [], mpm_action_plans = [], mpm_quarterly_datas = [],
     mpm_actuals = []\<rparr>"

text \<open>
  Two periods, January active and February a draft, and a run of calls: activate February,
  close January, activate February again.
\<close>

definition period_jan :: period where
  "period_jan = \<lparr>uid = 1, created_at = 0, updated_at = None, is_deleted = False,
     p_year = 2025, p_period = ''1'', p_status = ACTIVE\<rparr>"

definition period_feb :: period where
  "period_feb = \<lparr>uid = 2, created_at = 0, updated_at = None, is_deleted = False,
     p_year = 2025, p_period = ''2'', p_status = DRAFT\<rparr>"

definition db_periods :: db where
  "db_periods = \<lparr>periods = [period_jan, period_feb], bsc_indicators = [], bsc_actuals = [],
     mpm_indicators = [], mpm_action_plans = [], mpm_quarterly_datas = [], mpm_actuals = []\<rparr>"

definition status_calls :: "(datetime \<times> uuid \<times> period_status) list" where
  "status_calls = [(9, 2, ACTIVE), (10, 1, CLOSED), (11, 2, ACTIVE)]"

text \<open>
  Requests on the BSC indicators of \<open>db_dash\<close>, where the code F1 is taken in period 1 by the
  indicator 1 and in period 2 by the indicator 3: move the indicator 1 to period 2, and
  create an indicator with code F1 in period 2.
\<close>

definition upd_move_period :: bsc_indicator_update where
  "upd_move_period = \<lparr>biu_perspective = Unset, biu_code = Unset, biu_weight = Unset,
     biu_period_id = Value 2, biu_is_active = Unset\<rparr>"

definition in_code_taken :: bsc_indicator_create where
  "in_code_taken = \<lparr>bic_code = ''F1'', bic_perspective = FINANCIAL, bic_weight = Dec 5 0,
     bic_period_id = 2\<rparr>"

definition bsc_ind_moved :: bsc_indicator where
  "bsc_ind_moved = \<lparr>uid = 1, created_at = 0, updated_at = Some 9, is_deleted = False,
     bi_code = ''F1'', bi_perspective = FINANCIAL, bi_weight = Dec 20 0, bi_is_active = True,
     bi_period_id = 2\<rparr>"

section \<open>Verification\<close>

subsection \<open>Decimal arithmetic\<close>


lemma dec_fix_small: "ndigits \<bar>c\<bar> \<le> prec \<Longrightarrow> dec_fix c e = Dec c e"
  by (simp add: dec_fix_def Let_def)

lemma dec_val_powi: "dec_val a = of_int (coeff a) * 10 powi (expo a)"
  by (simp add: dec_val_def power_int_def field_simps)

lemma dec_val_mul:
  assumes "ndigits \<bar>coeff a * coeff b\<bar> \<le> prec"
  shows "dec_val (dec_mul a b) = dec_val a * dec_val b"
  using assms by (simp add: dec_mul_def dec_fix_small dec_val_powi power_int_add)







subsection \<open>Repositories\<close>

lemma first_SomeD: "first xs = Some x \<Longrightarrow> x \<in> set xs"
  by (cases xs) auto

lemma get_SomeD: "get tbl i = Some r \<Longrightarrow> r \<in> set tbl \<and> uid r = i \<and> \<not> is_deleted r"
  unfolding get_def by (drule first_SomeD) simp


lemma get_or_404_Inl: "get_or_404 tbl i = Inl e \<longleftrightarrow> get tbl i = None \<and> e = NotFound"
  by (auto simp: get_or_404_def split: option.splits)







subsection \<open>Derived fields of a BSC actual\<close>






text \<open>The constant \<^verbatim>\<open>Decimal(0.2)\<close> is the binary fraction nearest to one fifth, not one fifth.\<close>

lemma Decimal_float_0_2_val:
  "dec_val Decimal_float_0_2 = 3602879701896397 / 2 ^ 54 \<and> dec_val Decimal_float_0_2 \<noteq> 1 / 5"
  by (simp add: Decimal_float_0_2_def dec_val_def)

text \<open>
  The scenario of weight 30 and achievement 90: the score is 27.0 and the active weight 60,
  and the total score is \<open>5.400000000000000299760216649\<close>.
\<close>

lemma bsc_create_actual_30_90:
  "fst (bsc_create_actual 6 9 bsc_in_90 db_bsc) =
     Inr \<lparr>uid = 6, created_at = 9, updated_at = None, is_deleted = False,
          ba_actual_value = ''9'', ba_achievement = Dec 90 0, ba_score = Dec 270 (- 1),
          ba_active_weight = Dec 60 0,
          ba_total_score = Dec 5400000000000000299760216649 (- 27),
          ba_score_akhir = Dec 5400000000000000299760216649 (- 27), ba_indicator_id = 1\<rparr>"
  by code_simp




subsection \<open>Creating an actual for a missing indicator\<close>






subsection \<open>Dashboard aggregation\<close>

lemma dec_sum_Nil: "dec_sum [] = Decimal_0"
  by (simp add: dec_sum_def)

lemma dec_sum_snoc: "dec_sum (xs @ [x]) = dec_add (dec_sum xs) x"
  by (simp add: dec_sum_def)

lemma map_filter_Nil: "List.map_filter f [] = []"
  by (simp add: List.map_filter_def)

lemma map_filter_snoc:
  "List.map_filter f (xs @ [x]) = List.map_filter f xs @ (case f x of None \<Rightarrow> [] | Some y \<Rightarrow> [y])"
  by (simp add: List.map_filter_def split: option.splits)

lemma bsc_bucket_spec_Nil: "bsc_bucket_spec s [] = bsc_bucket_0"
  by (simp add: bsc_bucket_spec_def bsc_bucket_0_def dec_sum_Nil map_filter_Nil)

lemma bsc_sums_spec_Nil: "bsc_sums_spec s [] = bsc_sums_0"
  by (simp add: bsc_sums_spec_def bsc_sums_0_def dec_sum_Nil map_filter_Nil)

text \<open>One turn of the loop, on accumulators that are the sums of the indicators seen so far.\<close>

lemma bsc_dashboard_step_spec:
  assumes b: "map_of data (bi_perspective x) = (if seen then Some (bsc_bucket_spec s ps) else None)"
    and ps: "\<not> seen \<Longrightarrow> ps = []"
  shows "bsc_dashboard_step s (data, bsc_sums_spec s xs) x
     = (AList.update (bi_perspective x) (bsc_bucket_spec s (ps @ [x])) data,
        bsc_sums_spec s (xs @ [x]))"
proof -
  have bucket: "(case map_of data (bi_perspective x) of None \<Rightarrow> bsc_bucket_0 | Some b \<Rightarrow> b)
      = bsc_bucket_spec s ps"
    using b ps by (cases seen) (simp_all add: bsc_bucket_spec_Nil)
  show ?thesis
    unfolding bsc_dashboard_step_def Let_def prod.case bucket
    by (cases "bsc_paired s x")
       (simp_all add: bsc_paired_def [symmetric] bsc_bucket_spec_def bsc_sums_spec_def
          dec_sum_snoc map_filter_snoc)
qed

lemma bsc_fold_spec:
  "\<exists>data. foldl (bsc_dashboard_step s) ([], bsc_sums_0) inds = (data, bsc_sums_spec s inds)
     \<and> distinct (map fst data)
     \<and> (\<forall>p. map_of data p =
          (if p \<in> bi_perspective ` set inds
           then Some (bsc_bucket_spec s (filter (\<lambda>i. bi_perspective i = p) inds)) else None))"
proof (induction inds rule: rev_induct)
  case Nil
  show ?case by (simp add: bsc_sums_spec_Nil)
next
  case (snoc x xs)
  then obtain data where f: "foldl (bsc_dashboard_step s) ([], bsc_sums_0) xs = (data, bsc_sums_spec s xs)"
    and d: "distinct (map fst data)"
    and m: "\<And>p. map_of data p =
          (if p \<in> bi_perspective ` set xs
           then Some (bsc_bucket_spec s (filter (\<lambda>i. bi_perspective i = p) xs)) else None)"
    by blast
  let ?p = "bi_perspective x"
  let ?ps = "filter (\<lambda>i. bi_perspective i = ?p) xs"
  let ?data = "AList.update ?p (bsc_bucket_spec s (?ps @ [x])) data"
  have ps: "?p \<notin> bi_perspective ` set xs \<Longrightarrow> ?ps = []"
    by (force simp: filter_empty_conv image_iff)
  have step: "bsc_dashboard_step s (data, bsc_sums_spec s xs) x = (?data, bsc_sums_spec s (xs @ [x]))"
    using m [of ?p] ps by (intro bsc_dashboard_step_spec [where seen = "?p \<in> bi_perspective ` set xs"]) auto
  have "foldl (bsc_dashboard_step s) ([], bsc_sums_0) (xs @ [x]) = (?data, bsc_sums_spec s (xs @ [x]))"
    by (simp add: f step)
  moreover have "distinct (map fst ?data)" using d by (rule distinct_update)
  moreover have "map_of ?data p =
          (if p \<in> bi_perspective ` set (xs @ [x])
           then Some (bsc_bucket_spec s (filter (\<lambda>i. bi_perspective i = p) (xs @ [x]))) else None)" for p
    by (cases "p = ?p") (auto simp: update_conv' m)
  ultimately show ?case by blast
qed


lemma mpm_bucket_spec_Nil: "mpm_bucket_spec s [] = mpm_bucket_0"
  by (simp add: mpm_bucket_spec_def mpm_bucket_0_def dec_sum_Nil map_filter_Nil)

lemma mpm_sums_spec_Nil: "mpm_sums_spec s [] = mpm_sums_0"
  by (simp add: mpm_sums_spec_def mpm_sums_0_def dec_sum_Nil map_filter_Nil)

lemma mpm_dashboard_step_spec:
  assumes b: "map_of data (mpm_key_of (mi_perspective x))
      = (if seen then Some (mpm_bucket_spec s ps) else None)"
    and ps: "\<not> seen \<Longrightarrow> ps = []"
  shows "mpm_dashboard_step s (data, mpm_sums_spec s xs) x
     = (AList.update (mpm_key_of (mi_perspective x)) (mpm_bucket_spec s (ps @ [x])) data,
        mpm_sums_spec s (xs @ [x]))"
proof -
  have bucket: "(case map_of data (mpm_key_of (mi_perspective x)) of
        None \<Rightarrow> mpm_bucket_0 | Some b \<Rightarrow> b) = mpm_bucket_spec s ps"
    using b ps by (cases seen) (simp_all add: mpm_bucket_spec_Nil)
  show ?thesis
    unfolding mpm_dashboard_step_def Let_def prod.case bucket
    by (cases "mpm_latest_actual s x")
       (simp_all add: mpm_bucket_spec_def mpm_sums_spec_def mpm_item_of_def
          dec_sum_snoc map_filter_snoc)
qed

lemma mpm_fold_spec:
  "\<exists>data. foldl (mpm_dashboard_step s) ([], mpm_sums_0) inds = (data, mpm_sums_spec s inds)
     \<and> distinct (map fst data)
     \<and> (\<forall>k. map_of data k =
          (if k \<in> (\<lambda>i. mpm_key_of (mi_perspective i)) ` set inds
           then Some (mpm_bucket_spec s (filter (\<lambda>i. mpm_key_of (mi_perspective i) = k) inds))
           else None))"
proof (induction inds rule: rev_induct)
  case Nil
  show ?case by (simp add: mpm_sums_spec_Nil)
next
  case (snoc x xs)
  let ?key = "\<lambda>i. mpm_key_of (mi_perspective i)"
  from snoc obtain data where
    f: "foldl (mpm_dashboard_step s) ([], mpm_sums_0) xs = (data, mpm_sums_spec s xs)"
    and d: "distinct (map fst data)"
    and m: "\<And>k. map_of data k =
          (if k \<in> ?key ` set xs
           then Some (mpm_bucket_spec s (filter (\<lambda>i. ?key i = k) xs)) else None)"
    by blast
  let ?k = "?key x"
  let ?ps = "filter (\<lambda>i. ?key i = ?k) xs"
  let ?data = "AList.update ?k (mpm_bucket_spec s (?ps @ [x])) data"
  have ps: "?k \<notin> ?key ` set xs \<Longrightarrow> ?ps = []"
    by (force simp: filter_empty_conv image_iff)
  have step: "mpm_dashboard_step s (data, mpm_sums_spec s xs) x = (?data, mpm_sums_spec s (xs @ [x]))"
    using m [of ?k] ps by (intro mpm_dashboard_step_spec [where seen = "?k \<in> ?key ` set xs"]) auto
  have "foldl (mpm_dashboard_step s) ([], mpm_sums_0) (xs @ [x]) = (?data, mpm_sums_spec s (xs @ [x]))"
    by (simp add: f step)
  moreover have "distinct (map fst ?data)" using d by (rule distinct_update)
  moreover have "map_of ?data k =
          (if k \<in> ?key ` set (xs @ [x])
           then Some (mpm_bucket_spec s (filter (\<lambda>i. ?key i = k) (xs @ [x]))) else None)" for k
    by (cases "k = ?k") (auto simp: update_conv' m)
  ultimately show ?case by blast
qed

lemma bsc_dashboard_spec:
  "bsc_d_totals (bsc_get_dashboard_data s pid) = bsc_sums_spec s (bsc_get_by_period s pid)
   \<and> distinct (map fst (bsc_d_perspectives (bsc_get_dashboard_data s pid)))
   \<and> fst ` set (bsc_d_perspectives (bsc_get_dashboard_data s pid))
       = bi_perspective ` set (bsc_get_by_period s pid)
   \<and> (\<forall>(p, b) \<in> set (bsc_d_perspectives (bsc_get_dashboard_data s pid)).
        b = bsc_bucket_spec s (filter (\<lambda>i. bi_perspective i = p) (bsc_get_by_period s pid)))"
proof -
  let ?inds = "bsc_get_by_period s pid"
  from bsc_fold_spec [of s ?inds] obtain data where
    f: "foldl (bsc_dashboard_step s) ([], bsc_sums_0) ?inds = (data, bsc_sums_spec s ?inds)"
    and d: "distinct (map fst data)"
    and m: "\<And>p. map_of data p =
          (if p \<in> bi_perspective ` set ?inds
           then Some (bsc_bucket_spec s (filter (\<lambda>i. bi_perspective i = p) ?inds)) else None)"
    by blast
  have r: "bsc_d_totals (bsc_get_dashboard_data s pid) = bsc_sums_spec s ?inds"
    "bsc_d_perspectives (bsc_get_dashboard_data s pid) = data"
    by (simp_all add: bsc_get_dashboard_data_def Let_def f)
  have "fst ` set data = dom (map_of data)" by (simp add: dom_map_of_conv_image_fst)
  also have "\<dots> = bi_perspective ` set ?inds" by (auto simp: dom_def m)
  finally have keys: "fst ` set data = bi_perspective ` set ?inds" .
  have "b = bsc_bucket_spec s (filter (\<lambda>i. bi_perspective i = p) ?inds)"
    if "(p, b) \<in> set data" for p b
  proof -
    from that d have "map_of data p = Some b" by simp
    then show ?thesis by (simp add: m split: if_splits)
  qed
  with r d keys show ?thesis by auto
qed

lemma mpm_dashboard_spec:
  "mpm_d_totals (mpm_get_dashboard_data s pid) = mpm_sums_spec s (mpm_get_by_period s pid)
   \<and> distinct (map fst (mpm_d_perspectives (mpm_get_dashboard_data s pid)))
   \<and> fst ` set (mpm_d_perspectives (mpm_get_dashboard_data s pid))
       = (\<lambda>i. mpm_key_of (mi_perspective i)) ` set (mpm_get_by_period s pid)
   \<and> (\<forall>(k, b) \<in> set (mpm_d_perspectives (mpm_get_dashboard_data s pid)).
        b = mpm_bucket_spec s
              (filter (\<lambda>i. mpm_key_of (mi_perspective i) = k) (mpm_get_by_period s pid)))"
proof -
  let ?inds = "mpm_get_by_period s pid"
  let ?key = "\<lambda>i. mpm_key_of (mi_perspective i)"
  from mpm_fold_spec [of s ?inds] obtain data where
    f: "foldl (mpm_dashboard_step s) ([], mpm_sums_0) ?inds = (data, mpm_sums_spec s ?inds)"
    and d: "distinct (map fst data)"
    and m: "\<And>k. map_of data k =
          (if k \<in> ?key ` set ?inds
           then Some (mpm_bucket_spec s (filter (\<lambda>i. ?key i = k) ?inds)) else None)"
    by blast
  have r: "mpm_d_totals (mpm_get_dashboard_data s pid) = mpm_sums_spec s ?inds"
    "mpm_d_perspectives (mpm_get_dashboard_data s pid) = data"
    by (simp_all add: mpm_get_dashboard_data_def Let_def f)
  have "fst ` set data = dom (map_of data)" by (simp add: dom_map_of_conv_image_fst)
  also have "\<dots> = ?key ` set ?inds" by (auto simp: dom_def m)
  finally have keys: "fst ` set data = ?key ` set ?inds" .
  have "b = mpm_bucket_spec s (filter (\<lambda>i. ?key i = k) ?inds)"
    if "(k, b) \<in> set data" for k b
  proof -
    from that d have "map_of data k = Some b" by simp
    then show ?thesis by (simp add: m split: if_splits)
  qed
  with r d keys show ?thesis by auto
qed

text \<open>The entries and the totals of the two dashboards of \<open>db_dash\<close>.\<close>

lemma bsc_dashboard_db_dash:
  "bsc_get_dashboard_data db_dash 1 =
     \<lparr>bsc_d_period_id = 1, bsc_d_period_name = ''Jan-25'', bsc_d_bsc_type = ''Monthly'',
      bsc_d_perspectives = [(FINANCIAL, bsc_bucket_financial)],
      bsc_d_totals = \<lparr>bsc_total_weight = Dec 50 0, bsc_total_score = Dec 100 (- 1),
        bsc_total_active_weight = Dec 40 0,
        bsc_total_score_akhir = Dec 2000000000000000111022302463 (- 27)\<rparr>\<rparr>"
  by code_simp

lemma mpm_dashboard_db_dash:
  "mpm_get_dashboard_data db_dash 1 =
     \<lparr>mpm_d_period_id = 1, mpm_d_period_name = ''Jan-25'',
      mpm_d_perspectives = [(Perspective FINANCIAL, mpm_bucket_financial), (Other, mpm_bucket_other)],
      mpm_d_totals = \<lparr>mpm_total_weight = Dec 50 0, mpm_total_score = Dec 15 0\<rparr>\<rparr>"
  by code_simp



subsection \<open>Which actual and which indicators a dashboard takes\<close>

lemma sorted_map_last:
  "sorted (map f ys) \<Longrightarrow> y \<in> set ys \<Longrightarrow> f y \<le> f (last ys)"
  by (induction ys) (auto split: if_splits)

lemma first_rev: "first (rev ys) = (if ys = [] then None else Some (last ys))"
  by (cases ys rule: rev_cases) simp_all

lemma sort_key_Nil_iff: "sort_key f xs = [] \<longleftrightarrow> xs = []"
  using length_sort [of f xs] by (metis length_0_conv)

lemma first_order_by_desc_None: "first (order_by_desc f xs) = None \<longleftrightarrow> xs = []"
  by (simp add: order_by_desc_def first_rev sort_key_Nil_iff)

lemma first_order_by_desc_Some:
  assumes "first (order_by_desc f xs) = Some x"
  shows "x \<in> set xs \<and> (\<forall>y \<in> set xs. f y \<le> f x)"
proof -
  let ?ys = "sort_key f xs"
  from assms have ne: "?ys \<noteq> []" and x: "x = last ?ys"
    by (auto simp: order_by_desc_def first_rev split: if_splits)
  from ne have "last ?ys \<in> set ?ys" by (rule last_in_set)
  then have "x \<in> set xs" using x by simp
  moreover have "f y \<le> f x" if "y \<in> set xs" for y
    using sorted_map_last [of f ?ys y] that x by simp
  ultimately show ?thesis by blast
qed

text \<open>
  The actual that the MPM dashboard pairs with an indicator is a most recent one of its
  non-deleted actuals.
\<close>

lemma mpm_latest_actual_latest:
  assumes "mpm_latest_actual s i = Some a"
  shows "a \<in> set (mpm_actuals s) \<and> ma_indicator_id a = uid i \<and> \<not> is_deleted a
     \<and> (\<forall>a' \<in> set (mpm_actuals s). ma_indicator_id a' = uid i \<and> \<not> is_deleted a'
           \<longrightarrow> created_at a' \<le> created_at a)"
proof -
  let ?xs = "filter (\<lambda>a. ma_indicator_id a = uid i \<and> \<not> is_deleted a) (mpm_actuals s)"
  from assms have "first (order_by_desc created_at ?xs) = Some a"
    by (simp add: mpm_latest_actual_def)
  from first_order_by_desc_Some [OF this]
  have "a \<in> set ?xs" and "\<forall>y \<in> set ?xs. created_at y \<le> created_at a" by blast+
  then show ?thesis by simp
qed

lemma in_concat_mapI:
  "(k, b) \<in> set d \<Longrightarrow> x \<in> set (g b) \<Longrightarrow> x \<in> set (concat (map (\<lambda>(k, b). g b) d))"
  by force

lemma in_concat_mapE:
  assumes "x \<in> set (concat (map (\<lambda>(k, b). g b) d))"
  obtains k b where "(k, b) \<in> set d" "x \<in> set (g b)"
  using assms by auto

lemma bsc_dashboard_indicators_set:
  "set (bsc_dashboard_indicators (bsc_get_dashboard_data s pid)) = set (bsc_get_by_period s pid)"
proof (intro set_eqI iffI)
  let ?d = "bsc_d_perspectives (bsc_get_dashboard_data s pid)"
  let ?inds = "bsc_get_by_period s pid"
  from bsc_dashboard_spec [of s pid]
  have keys: "fst ` set ?d = bi_perspective ` set ?inds"
    and b: "\<And>p b. (p, b) \<in> set ?d \<Longrightarrow> b = bsc_bucket_spec s (filter (\<lambda>i. bi_perspective i = p) ?inds)"
    by auto
  have items: "map bsc_item_indicator (bsc_items (bsc_bucket_spec s ps)) = ps" for ps
    by (simp add: bsc_bucket_spec_def comp_def)
  fix x
  {
    assume "x \<in> set (bsc_dashboard_indicators (bsc_get_dashboard_data s pid))"
    then obtain p b where pb: "(p, b) \<in> set ?d" and x: "x \<in> set (map bsc_item_indicator (bsc_items b))"
      unfolding bsc_dashboard_indicators_def by (rule in_concat_mapE)
    from x have "x \<in> set (map bsc_item_indicator (bsc_items
        (bsc_bucket_spec s (filter (\<lambda>i. bi_perspective i = p) ?inds))))"
      by (subst b [OF pb, symmetric])
    then have "x \<in> set (filter (\<lambda>i. bi_perspective i = p) ?inds)"
      by (simp only: items)
    then show "x \<in> set ?inds" by simp
  next
    assume x: "x \<in> set ?inds"
    then have "bi_perspective x \<in> fst ` set ?d" unfolding keys by simp
    then obtain b' where pb: "(bi_perspective x, b') \<in> set ?d" by force
    from x have "x \<in> set (filter (\<lambda>i. bi_perspective i = bi_perspective x) ?inds)" by simp
    then have "x \<in> set (map bsc_item_indicator (bsc_items b'))"
      by (subst b [OF pb]) (simp only: items)
    with pb show "x \<in> set (bsc_dashboard_indicators (bsc_get_dashboard_data s pid))"
      unfolding bsc_dashboard_indicators_def by (rule in_concat_mapI)
  }
qed

lemma mpm_dashboard_indicators_set:
  "set (mpm_dashboard_indicators (mpm_get_dashboard_data s pid)) = set (mpm_get_by_period s pid)"
proof (intro set_eqI iffI)
  let ?d = "mpm_d_perspectives (mpm_get_dashboard_data s pid)"
  let ?inds = "mpm_get_by_period s pid"
  let ?key = "\<lambda>i. mpm_key_of (mi_perspective i)"
  from mpm_dashboard_spec [of s pid]
  have keys: "fst ` set ?d = ?key ` set ?inds"
    and b: "\<And>k b. (k, b) \<in> set ?d \<Longrightarrow> b = mpm_bucket_spec s (filter (\<lambda>i. ?key i = k) ?inds)"
    by auto
  have items: "map mpm_item_indicator (mpm_items (mpm_bucket_spec s ps)) = ps" for ps
    by (simp add: mpm_bucket_spec_def mpm_item_of_def comp_def)
  fix x
  {
    assume "x \<in> set (mpm_dashboard_indicators (mpm_get_dashboard_data s pid))"
    then obtain k b where kb: "(k, b) \<in> set ?d" and x: "x \<in> set (map mpm_item_indicator (mpm_items b))"
      unfolding mpm_dashboard_indicators_def by (rule in_concat_mapE)
    from x have "x \<in> set (map mpm_item_indicator (mpm_items
        (mpm_bucket_spec s (filter (\<lambda>i. ?key i = k) ?inds))))"
      by (subst b [OF kb, symmetric])
    then have "x \<in> set (filter (\<lambda>i. ?key i = k) ?inds)"
      by (simp only: items)
    then show "x \<in> set ?inds" by simp
  next
    assume x: "x \<in> set ?inds"
    then have "?key x \<in> fst ` set ?d" unfolding keys by simp
    then obtain b' where kb: "(?key x, b') \<in> set ?d" by force
    from x have "x \<in> set (filter (\<lambda>i. ?key i = ?key x) ?inds)" by simp
    then have "x \<in> set (map mpm_item_indicator (mpm_items b'))"
      by (subst b [OF kb]) (simp only: items)
    with kb show "x \<in> set (mpm_dashboard_indicators (mpm_get_dashboard_data s pid))"
      unfolding mpm_dashboard_indicators_def by (rule in_concat_mapI)
  }
qed

lemma bsc_get_by_period_set:
  "set (bsc_get_by_period s pid) = {i \<in> set (bsc_indicators s). bi_period_id i = pid \<and> \<not> is_deleted i}"
  by (auto simp: bsc_get_by_period_def)

lemma mpm_get_by_period_set:
  "set (mpm_get_by_period s pid) = {i \<in> set (mpm_indicators s). mi_period_id i = pid \<and> \<not> is_deleted i}"
  by (auto simp: mpm_get_by_period_def order_by_def)

text \<open>The BSC actuals of \<open>db_dash\<close> are what two recordings, at times 5 and 8, leave behind.\<close>

lemma db_dash_recorded:
  "snd (bsc_create_actual 11 8 bsc_in_75
          (snd (bsc_create_actual 10 5 bsc_in_50 (db_dash\<lparr>bsc_actuals := []\<rparr>)))) = db_dash"
  by code_simp

text \<open>
  C5 fails for the BSC dashboard. The indicator of weight 20 has two non-deleted actuals,
  of times 5 and 8, and \<open>bsc_get_latest_by_indicator\<close> finds the one of time 8; the dashboard
  pairs the indicator with the one of time 5, the first row that its unordered query
  returns, and adds the score 10.0 of that one to the totals. The MPM dashboard, which
  orders its query, pairs its indicator with the actual of time 8.
\<close>

theorem bsc_dashboard_pairs_first_row:
  "bsc_d_perspectives (bsc_get_dashboard_data db_dash 1) = [(FINANCIAL, bsc_bucket_financial)]
   \<and> bsc_items bsc_bucket_financial
       = [\<lparr>bsc_item_indicator = bsc_ind_20, bsc_item_actual = Some bsc_act_old\<rparr>,
          \<lparr>bsc_item_indicator = bsc_ind_inactive, bsc_item_actual = None\<rparr>]
   \<and> bsc_total_score (bsc_d_totals (bsc_get_dashboard_data db_dash 1)) = ba_score bsc_act_old
   \<and> bsc_get_latest_by_indicator db_dash (uid bsc_ind_20) = Some bsc_act_new
   \<and> created_at bsc_act_old < created_at bsc_act_new
   \<and> ba_score bsc_act_old \<noteq> ba_score bsc_act_new
   \<and> mpm_d_perspectives (mpm_get_dashboard_data db_dash 1)
       = [(Perspective FINANCIAL, mpm_bucket_financial), (Other, mpm_bucket_other)]
   \<and> mpm_items mpm_bucket_financial
       = [\<lparr>mpm_item_indicator = mpm_ind_20, mpm_item_actual = Some mpm_act_new,
           mpm_item_action_plans = []\<rparr>]"
proof -
  have "bsc_get_latest_by_indicator db_dash (uid bsc_ind_20) = Some bsc_act_new"
    by code_simp
  moreover have "bsc_d_perspectives (bsc_get_dashboard_data db_dash 1)
      = [(FINANCIAL, bsc_bucket_financial)]"
    "bsc_total_score (bsc_d_totals (bsc_get_dashboard_data db_dash 1)) = ba_score bsc_act_old"
    by (simp_all add: bsc_dashboard_db_dash bsc_act_old_def del: One_nat_def)
  moreover have "mpm_d_perspectives (mpm_get_dashboard_data db_dash 1)
       = [(Perspective FINANCIAL, mpm_bucket_financial), (Other, mpm_bucket_other)]"
    by (simp add: mpm_dashboard_db_dash del: One_nat_def)
  ultimately show ?thesis
    by (simp add: bsc_bucket_financial_def mpm_bucket_financial_def bsc_act_old_def bsc_act_new_def)
qed

text \<open>
  C6, as amended. The indicators that the dashboards of a period include are exactly the
  indicators of that period that are not soft-deleted, whether they are active or not; they
  are the ones that \<^verbatim>\<open>get_by_period\<close> returns, over which the totals are taken.
\<close>

theorem dashboard_indicators:
  "set (bsc_dashboard_indicators (bsc_get_dashboard_data s pid))
     = {i \<in> set (bsc_indicators s). bi_period_id i = pid \<and> \<not> is_deleted i}
   \<and> bsc_d_totals (bsc_get_dashboard_data s pid) = bsc_sums_spec s (bsc_get_by_period s pid)
   \<and> set (bsc_get_by_period s pid)
     = {i \<in> set (bsc_indicators s). bi_period_id i = pid \<and> \<not> is_deleted i}
   \<and> set (mpm_dashboard_indicators (mpm_get_dashboard_data s pid))
     = {i \<in> set (mpm_indicators s). mi_period_id i = pid \<and> \<not> is_deleted i}
   \<and> mpm_d_totals (mpm_get_dashboard_data s pid) = mpm_sums_spec s (mpm_get_by_period s pid)
   \<and> set (mpm_get_by_period s pid)
     = {i \<in> set (mpm_indicators s). mi_period_id i = pid \<and> \<not> is_deleted i}"
  using bsc_dashboard_spec [of s pid] mpm_dashboard_spec [of s pid]
  by (simp add: bsc_dashboard_indicators_set mpm_dashboard_indicators_set
      bsc_get_by_period_set mpm_get_by_period_set)

text \<open>
  The claim as stated fails: the inactive indicators of \<open>db_dash\<close> are items of the dashboards
  of period 1, and their weight of 30 is part of the total weight of 50.
\<close>

theorem dashboard_indicators_counterexample:
  "bsc_ind_inactive \<in> set (bsc_dashboard_indicators (bsc_get_dashboard_data db_dash 1))
   \<and> \<not> bi_is_active bsc_ind_inactive
   \<and> bsc_total_weight (bsc_d_totals (bsc_get_dashboard_data db_dash 1)) = Dec 50 0
   \<and> mpm_ind_inactive \<in> set (mpm_dashboard_indicators (mpm_get_dashboard_data db_dash 1))
   \<and> \<not> mi_is_active mpm_ind_inactive
   \<and> mpm_total_weight (mpm_d_totals (mpm_get_dashboard_data db_dash 1)) = Dec 50 0"
  by (simp add: bsc_dashboard_db_dash mpm_dashboard_db_dash
        bsc_dashboard_indicators_def mpm_dashboard_indicators_def bsc_bucket_financial_def
        mpm_bucket_financial_def mpm_bucket_other_def bsc_ind_inactive_def mpm_ind_inactive_def
      del: One_nat_def)

subsection \<open>The status of an action plan\<close>

lemma dec_val_aligned:
  assumes "e \<le> expo a"
  shows "dec_val a = of_int (coeff a * 10 ^ nat (expo a - e)) * 10 powi e"
proof -
  have "(10::rat) powi (expo a) = 10 powi ((expo a - e) + e)" by simp
  also have "\<dots> = 10 powi (expo a - e) * 10 powi e" by (rule power_int_add) simp
  also have "(10::rat) powi (expo a - e) = 10 ^ nat (expo a - e)"
    using assms by (simp add: power_int_def)
  finally have "(10::rat) powi (expo a) = 10 ^ nat (expo a - e) * 10 powi e" .
  then have "dec_val a = of_int (coeff a) * (10 ^ nat (expo a - e) * 10 powi e)"
    by (simp only: dec_val_powi)
  then show ?thesis by (simp add: mult.assoc)
qed

lemma dec_le_val: "dec_le a b \<longleftrightarrow> dec_val a \<le> dec_val b"
proof -
  define e where "e = min (expo a) (expo b)"
  have p: "(0::rat) < 10 powi e" by simp
  have "dec_val a \<le> dec_val b \<longleftrightarrow>
      (of_int (coeff a * 10 ^ nat (expo a - e)) :: rat) * 10 powi e
        \<le> of_int (coeff b * 10 ^ nat (expo b - e)) * 10 powi e"
    by (simp only: dec_val_aligned [of e a] dec_val_aligned [of e b] e_def min.cobounded1 min.cobounded2)
  also have "\<dots> \<longleftrightarrow> (of_int (coeff a * 10 ^ nat (expo a - e)) :: rat)
        \<le> of_int (coeff b * 10 ^ nat (expo b - e))"
    using p by (simp only: mult_le_cancel_right_pos)
  also have "\<dots> \<longleftrightarrow> dec_le a b"
    by (simp only: of_int_le_iff dec_le_def Let_def e_def)
  finally show ?thesis by simp
qed

lemma reported_actual:
  "q \<in> set (reported_quarters s pid) \<Longrightarrow> \<exists>a. qd_actual_value q = Some a"
  by (auto simp: reported_quarters_def)

lemma calculate_status_empty:
  "reported_quarters s pid = [] \<Longrightarrow> calculate_status s pid = Inr ON_TRACK"
  by (simp add: calculate_status_def order_by_desc_def)

lemma calculate_status_nonempty:
  assumes "reported_quarters s pid \<noteq> []"
  shows "\<exists>q \<in> set (reported_quarters s pid). \<exists>a. qd_actual_value q = Some a
           \<and> (\<forall>q' \<in> set (reported_quarters s pid). qd_quarter q' \<le> qd_quarter q)
           \<and> calculate_status s pid = Inr (status_of (qd_target_value q) a)"
proof -
  let ?rs = "reported_quarters s pid"
  from assms obtain q where f: "first (order_by_desc qd_quarter ?rs) = Some q"
    using first_order_by_desc_None [of qd_quarter ?rs] by (cases "first (order_by_desc qd_quarter ?rs)") auto
  from first_order_by_desc_Some [OF f] have q: "q \<in> set ?rs"
    and mx: "\<forall>q' \<in> set ?rs. qd_quarter q' \<le> qd_quarter q" by blast+
  from reported_actual [OF q] obtain a where a: "qd_actual_value q = Some a" by blast
  have "calculate_status s pid = Inr (status_of (qd_target_value q) a)"
    by (simp add: calculate_status_def f a status_of_def dec_le_val)
  with q mx a show ?thesis by blast
qed

lemma dec_val_mul_08:
  assumes "ndigits \<bar>coeff t * 8\<bar> \<le> prec"
  shows "dec_val (dec_mul t (Dec 8 (- 1))) = dec_val t * (8 / 10)"
proof -
  have "ndigits \<bar>coeff t * coeff (Dec 8 (- 1))\<bar> \<le> prec" using assms by simp
  from dec_val_mul [OF this] show ?thesis by (simp add: dec_val_def)
qed

text \<open>
  C3, as amended. \<open>calculate_status\<close> returns On Track for a plan without a non-deleted
  quarterly datum that has an actual value. Otherwise there is such a datum whose quarter
  label is greatest among them, and the result is the classification of that datum alone:
  On Track if its actual value is at least its target, At Risk if it is at least the decimal
  product of the target and 0.8, Off Track otherwise. That product is eight tenths of the
  target exactly when eight times the coefficient of the target has at most 28 digits, and
  is rounded to 28 digits otherwise.
\<close>

theorem calculate_status_latest_quarter:
  "(reported_quarters s pid = [] \<longrightarrow> calculate_status s pid = Inr ON_TRACK)
   \<and> (reported_quarters s pid \<noteq> [] \<longrightarrow>
        (\<exists>q \<in> set (reported_quarters s pid). \<exists>a. qd_actual_value q = Some a
           \<and> (\<forall>q' \<in> set (reported_quarters s pid). qd_quarter q' \<le> qd_quarter q)
           \<and> calculate_status s pid = Inr (status_of (qd_target_value q) a)))
   \<and> (ndigits \<bar>coeff t * 8\<bar> \<le> prec
        \<longrightarrow> dec_val (dec_mul t (Dec 8 (- 1))) = dec_val t * (8 / 10))"
  using calculate_status_empty [of s pid] calculate_status_nonempty [of s pid]
    dec_val_mul_08 [of t]
  by blast

theorem calculate_status_latest_quarter_witness:
  "reported_quarters db_plans 2 = [] \<and> calculate_status db_plans 2 = Inr ON_TRACK
   \<and> reported_quarters db_plans 1 = [quarter_1, quarter_2]
   \<and> calculate_status db_plans 1 = Inr AT_RISK
   \<and> ndigits \<bar>coeff (Dec 100 0) * 8\<bar> \<le> prec
   \<and> dec_val (dec_mul (Dec 100 0) (Dec 8 (- 1))) = 80
   \<and> dec_val (Dec 80 0) = 80"
proof -
  note r = calculate_status_latest_quarter [of db_plans _ "Dec 100 0"]
  have e: "reported_quarters db_plans 2 = []" by code_simp
  have n: "reported_quarters db_plans 1 = [quarter_1, quarter_2]" by code_simp
  have d: "ndigits \<bar>coeff (Dec 100 0) * 8\<bar> \<le> prec" by code_simp
  from r [of 2] e have s2: "calculate_status db_plans 2 = Inr ON_TRACK" by blast
  from r [of 2] d have "dec_val (dec_mul (Dec 100 0) (Dec 8 (- 1))) = dec_val (Dec 100 0) * (8 / 10)"
    by blast
  also have "\<dots> = 80" by (simp add: dec_val_def)
  finally have v: "dec_val (dec_mul (Dec 100 0) (Dec 8 (- 1))) = 80" .
  have lt: "\<not> qd_quarter quarter_2 \<le> qd_quarter quarter_1" by code_simp
  from r [of 1] n obtain q a where q: "q = quarter_1 \<or> q = quarter_2"
    and a: "qd_actual_value q = Some a"
    and mx: "qd_quarter quarter_2 \<le> qd_quarter q"
    and st: "calculate_status db_plans 1 = Inr (status_of (qd_target_value q) a)"
    by auto
  from q mx lt have "q = quarter_2" by blast
  with a st have "calculate_status db_plans 1 = Inr (status_of (Dec 100 0) (Dec 80 0))"
    by (simp add: quarter_2_def)
  also have "status_of (Dec 100 0) (Dec 80 0) = AT_RISK"
    unfolding status_of_def v by (simp add: dec_val_def)
  finally have s1: "calculate_status db_plans 1 = Inr AT_RISK" .
  from e n d s1 s2 v show ?thesis by (simp add: dec_val_def)
qed

text \<open>
  The claim as stated fails for a target of 28 digits: the actual value of \<open>quarter_long\<close> is
  exactly eight tenths of its target and below the target, and the status is Off Track,
  since the product that the actual value is compared with has been rounded up.
\<close>

theorem calculate_status_latest_quarter_counterexample:
  "reported_quarters db_plan_long 1 = [quarter_long]
   \<and> dec_val (Dec 17777777777777777777777777776 (- 28))
       = (8 / 10) * dec_val (qd_target_value quarter_long)
   \<and> qd_actual_value quarter_long = Some (Dec 17777777777777777777777777776 (- 28))
   \<and> calculate_status db_plan_long 1 = Inr OFF_TRACK"
proof -
  have "reported_quarters db_plan_long 1 = [quarter_long]" by code_simp
  moreover have "calculate_status db_plan_long 1 = Inr OFF_TRACK" by code_simp
  ultimately show ?thesis by (simp add: quarter_long_def dec_val_def)
qed

text \<open>The thresholds on a target of 100: 100 is On Track, 80 is At Risk, 79 is Off Track.\<close>

lemma status_of_thresholds:
  "status_of (Dec 100 0) (Dec 100 0) = ON_TRACK
   \<and> status_of (Dec 100 0) (Dec 80 0) = AT_RISK
   \<and> status_of (Dec 100 0) (Dec 79 0) = OFF_TRACK"
proof -
  have "dec_mul (Dec 100 0) (Dec 8 (- 1)) = Dec 800 (- 1)" by code_simp
  then show ?thesis by (simp add: status_of_def dec_val_def)
qed

text \<open>
  The claim C4 read with exact sums fails for weights of 28 digits: the total weight of the
  two indicators of \<open>db_dash_long\<close> is 10.00000000000000000000000000, and the sum of their
  weights is 10.000000000000000000000000001.
\<close>

theorem dashboard_sums_counterexample:
  "bsc_get_by_period db_dash_long 1 = [bsc_ind_long_1, bsc_ind_long_2]
   \<and> bsc_total_weight (bsc_d_totals (bsc_get_dashboard_data db_dash_long 1))
       = Dec 1000000000000000000000000000 (- 26)
   \<and> dec_val (Dec 1000000000000000000000000000 (- 26))
       \<noteq> dec_val (bi_weight bsc_ind_long_1) + dec_val (bi_weight bsc_ind_long_2)"
proof -
  have "bsc_get_by_period db_dash_long 1 = [bsc_ind_long_1, bsc_ind_long_2]" by code_simp
  moreover have "bsc_total_weight (bsc_d_totals (bsc_get_dashboard_data db_dash_long 1))
       = Dec 1000000000000000000000000000 (- 26)" by code_simp
  ultimately show ?thesis by (simp add: bsc_ind_long_1_def bsc_ind_long_2_def dec_val_def)
qed

subsection \<open>Quarterly data without an actual value\<close>

lemma create_quarterly_data_plans:
  "qc_actual_value data_in = None \<Longrightarrow>
     mpm_action_plans (snd (create_quarterly_data new_id now data_in s)) = mpm_action_plans s"
  by (simp add: create_quarterly_data_def Let_def split: option.splits)

lemma update_quarterly_data_plans:
  "attr (qu_actual_value u) = None \<Longrightarrow>
     mpm_action_plans (snd (update_quarterly_data now data_id u s)) = mpm_action_plans s"
  by (simp add: update_quarterly_data_def Let_def split: sum.splits)

text \<open>
  C10. A call of \<open>create_quarterly_data\<close> whose request has no actual value, and a call of
  \<open>update_quarterly_data\<close> whose request leaves the actual value out or sets it to null,
  leave the table of action plans, and so the status of the owning plan, as it was,
  whatever the call returns.
\<close>

theorem quarterly_data_without_actual_keeps_status:
  "(qc_actual_value data_in = None
      \<longrightarrow> mpm_action_plans (snd (create_quarterly_data new_id now data_in s)) = mpm_action_plans s)
   \<and> (attr (qu_actual_value u) = None
      \<longrightarrow> mpm_action_plans (snd (update_quarterly_data now data_id u s)) = mpm_action_plans s)"
  using create_quarterly_data_plans [of data_in new_id now s]
    update_quarterly_data_plans [of u now data_id s]
  by blast

text \<open>
  On \<open>db_plans\<close>: planning Q4, raising the target of Q2 to 200 and clearing the actual value
  of Q2 leave the stored status of plan 1 At Risk, although \<open>calculate_status\<close> gives Off
  Track after the second and On Track after the third.
\<close>

theorem quarterly_data_without_actual_keeps_status_witness:
  "qc_actual_value in_quarter_4 = None
   \<and> mpm_action_plans (snd (create_quarterly_data 24 9 in_quarter_4 db_plans)) = [plan_1, plan_2]
   \<and> attr (qu_actual_value upd_target_200) = None
   \<and> mpm_action_plans (snd (update_quarterly_data 9 22 upd_target_200 db_plans)) = [plan_1, plan_2]
   \<and> calculate_status db_plans 1 = Inr AT_RISK
   \<and> calculate_status (snd (update_quarterly_data 9 22 upd_target_200 db_plans)) 1 = Inr OFF_TRACK
   \<and> attr (qu_actual_value upd_clear_actual) = None
   \<and> mpm_action_plans (snd (update_quarterly_data 9 22 upd_clear_actual db_plans)) = [plan_1, plan_2]
   \<and> calculate_status (snd (update_quarterly_data 9 22 upd_clear_actual db_plans)) 1 = Inr ON_TRACK
   \<and> ap_status plan_1 = AT_RISK"
proof -
  have p: "mpm_action_plans db_plans = [plan_1, plan_2]" by (simp add: db_plans_def)
  have h1: "qc_actual_value in_quarter_4 = None" by (simp add: in_quarter_4_def)
  have h2: "attr (qu_actual_value upd_target_200) = None" by (simp add: upd_target_200_def)
  have h3: "attr (qu_actual_value upd_clear_actual) = None" by (simp add: upd_clear_actual_def)
  have c1: "calculate_status db_plans 1 = Inr AT_RISK" by code_simp
  have c2: "calculate_status (snd (update_quarterly_data 9 22 upd_target_200 db_plans)) 1
      = Inr OFF_TRACK" by code_simp
  have c3: "calculate_status (snd (update_quarterly_data 9 22 upd_clear_actual db_plans)) 1
      = Inr ON_TRACK" by code_simp
  from quarterly_data_without_actual_keeps_status
    [of in_quarter_4 24 9 db_plans upd_target_200 22] h1 h2
  have a: "mpm_action_plans (snd (create_quarterly_data 24 9 in_quarter_4 db_plans)) = [plan_1, plan_2]"
    "mpm_action_plans (snd (update_quarterly_data 9 22 upd_target_200 db_plans)) = [plan_1, plan_2]"
    unfolding p by blast+
  from quarterly_data_without_actual_keeps_status
    [of in_quarter_4 24 9 db_plans upd_clear_actual 22] h3
  have b: "mpm_action_plans (snd (update_quarterly_data 9 22 upd_clear_actual db_plans)) = [plan_1, plan_2]"
    unfolding p by blast
  from h1 h2 h3 c1 c2 c3 a b show ?thesis by (simp add: plan_1_def)
qed

subsection \<open>The active period\<close>

lemma length_filter_le_mono:
  "(\<And>x. x \<in> set xs \<Longrightarrow> Q x \<Longrightarrow> P x) \<Longrightarrow> length (filter Q xs) \<le> length (filter P xs)"
  by (induction xs) auto

lemma distinct_uid_filter:
  "distinct (map uid xs) \<Longrightarrow> length (filter (\<lambda>x. uid x = i) xs) \<le> 1"
proof (induction xs)
  case Nil
  then show ?case by simp
next
  case (Cons x xs)
  show ?case
  proof (cases "uid x = i")
    case True
    with Cons.prems have "\<forall>y \<in> set xs. uid y \<noteq> i" by (force simp: image_iff)
    then have "filter (\<lambda>x. uid x = i) xs = []" by (simp add: filter_empty_conv)
    with True show ?thesis by simp
  next
    case False
    with Cons show ?thesis by simp
  qed
qed

lemma distinct_uid_update:
  assumes "distinct (map uid xs)"
  shows "distinct (map uid (update xs r))"
proof -
  have "map uid (update xs r) = map uid xs"
    by (induction xs) (auto simp: update_def)
  with assms show ?thesis by simp
qed

lemma length_filter_le_1:
  "length (filter P xs) \<le> 1 \<Longrightarrow> x \<in> set xs \<Longrightarrow> y \<in> set xs \<Longrightarrow> P x \<Longrightarrow> P y \<Longrightarrow> x = y"
proof (induction xs)
  case Nil
  then show ?case by simp
next
  case (Cons z zs)
  show ?case
  proof (cases "P z")
    case True
    with Cons.prems(1) have "filter P zs = []" by simp
    then have "\<forall>w \<in> set zs. \<not> P w" by (simp add: filter_empty_conv)
    with Cons.prems show ?thesis by auto
  next
    case False
    with Cons show ?thesis by auto
  qed
qed

lemma first_filter_None: "first (filter P xs) = None \<longleftrightarrow> (\<forall>x \<in> set xs. \<not> P x)"
  by (induction xs) auto

lemma first_filter_Some: "first (filter P xs) = Some x \<Longrightarrow> x \<in> set xs \<and> P x"
  by (induction xs) (auto split: if_splits)

text \<open>A successful \<open>update_status\<close> keeps the invariant.\<close>

lemma update_status_invariant:
  assumes inv: "one_active_period s"
  shows "one_active_period (snd (update_status now i status s))"
proof (cases "update_status now i status s")
  case (Pair res s')
  let ?A = "\<lambda>p. p_status p = ACTIVE \<and> \<not> is_deleted p"
  let ?ps = "periods s"
  from inv have d: "distinct (map uid ?ps)" and c: "length (filter ?A ?ps) \<le> 1"
    by (simp_all add: one_active_period_def)
  show ?thesis
  proof (cases res)
    case (Inl e)
    with Pair have "s' = s"
      by (auto simp: update_status_def Let_def split: sum.splits if_splits)
    with Pair inv show ?thesis by simp
  next
    case (Inr row)
    with Pair obtain db_obj where g: "get ?ps i = Some db_obj"
      and ok: "\<not> (status = ACTIVE \<and> (case get_active_period s of None \<Rightarrow> False
                                        | Some ap \<Rightarrow> uid ap \<noteq> i))"
      and row: "row = db_obj\<lparr>p_status := status, updated_at := Some now\<rparr>"
      and s': "s' = s\<lparr>periods := update ?ps row\<rparr>"
      by (auto simp: update_status_def Let_def get_or_404_def split: option.splits if_splits)
    from get_SomeD [OF g] have o: "db_obj \<in> set ?ps" "uid db_obj = i" "\<not> is_deleted db_obj"
      by simp_all
    let ?f = "\<lambda>x. if uid x = uid row then row else x"
    have ps': "periods s' = map ?f ?ps" by (simp add: s' update_def)
    have uidrow: "uid row = i" by (simp add: row o)
    have "length (filter ?A (map ?f ?ps)) \<le> 1"
    proof (cases "status = ACTIVE")
      case False
      have "length (filter ?A (map ?f ?ps)) = length (filter (?A \<circ> ?f) ?ps)"
        by (simp add: filter_map)
      also have "\<dots> \<le> length (filter ?A ?ps)"
        using False by (intro length_filter_le_mono) (auto simp: row split: if_splits)
      finally show ?thesis using c by simp
    next
      case True
      have only: "uid x = i" if x: "x \<in> set ?ps" and a: "?A x" for x
      proof (cases "get_active_period s")
        case None
        then have "\<forall>y \<in> set ?ps. \<not> ?A y"
          by (simp only: get_active_period_def first_filter_None)
        with x a show ?thesis by blast
      next
        case (Some ap)
        with ok True have "uid ap = i" by simp
        moreover from Some have "ap \<in> set ?ps" "?A ap"
          using first_filter_Some [of ?A ?ps ap] by (simp_all add: get_active_period_def)
        ultimately show ?thesis using length_filter_le_1 [OF c x _ a] by auto
      qed
      have "length (filter ?A (map ?f ?ps)) = length (filter (?A \<circ> ?f) ?ps)"
        by (simp add: filter_map)
      also have "\<dots> \<le> length (filter (\<lambda>x. uid x = i) ?ps)"
        using only by (intro length_filter_le_mono) (auto simp: uidrow split: if_splits)
      also have "\<dots> \<le> 1" using d by (rule distinct_uid_filter)
      finally show ?thesis .
    qed
    moreover have "distinct (map uid (periods s'))"
      using d by (simp add: s' distinct_uid_update)
    ultimately show ?thesis using Pair by (simp add: one_active_period_def ps')
  qed
qed

lemma update_statuses_invariant:
  "one_active_period s \<Longrightarrow> one_active_period (update_statuses calls s)"
proof (induction calls arbitrary: s)
  case Nil
  then show ?case by simp
next
  case (Cons c calls)
  obtain now i status where c: "c = (now, i, status)" by (cases c)
  from Cons.prems have "one_active_period (snd (update_status now i status s))"
    by (rule update_status_invariant)
  then show ?case unfolding c by (simp add: Cons.IH)
qed

text \<open>
  Activating a period while another period, not deleted, is active is rejected, and the
  database stays as it was.
\<close>

lemma update_status_rejects:
  assumes inv: "one_active_period s"
    and other: "q \<in> set (periods s)" "uid q \<noteq> i" "p_status q = ACTIVE" "\<not> is_deleted q"
  shows "\<exists>e. update_status now i ACTIVE s = (Inl e, s)"
proof (cases "get (periods s) i")
  case None
  then show ?thesis by (simp add: update_status_def get_or_404_def)
next
  case (Some db_obj)
  let ?A = "\<lambda>p. p_status p = ACTIVE \<and> \<not> is_deleted p"
  from inv have c: "length (filter ?A (periods s)) \<le> 1" by (simp add: one_active_period_def)
  from other have "get_active_period s \<noteq> None"
    by (auto simp: get_active_period_def first_filter_None)
  then obtain ap where ap: "get_active_period s = Some ap" by blast
  then have "ap \<in> set (periods s)" "?A ap"
    using first_filter_Some [of ?A "periods s" ap] by (simp_all add: get_active_period_def)
  with length_filter_le_1 [OF c this(1) other(1)] other have "ap = q" by simp
  with other ap Some show ?thesis by (simp add: update_status_def get_or_404_def)
qed

text \<open>
  C8. While the database has at most one active period that is not deleted, a call of
  \<open>update_status\<close> that asks to activate a period while a different period, not deleted, is
  active ends with an error and leaves the database, and so the status of the period, as it
  was; and after any run of \<open>update_status\<close> calls the database still has at most one active
  period that is not deleted.
\<close>

theorem update_status_single_active:
  "(one_active_period s \<and> q \<in> set (periods s) \<and> uid q \<noteq> i \<and> p_status q = ACTIVE
      \<and> \<not> is_deleted q
      \<longrightarrow> (\<exists>e. update_status now i ACTIVE s = (Inl e, s)))
   \<and> (one_active_period s \<longrightarrow> one_active_period (update_statuses calls s))"
  using update_status_rejects [of s q i now] update_statuses_invariant [of s calls]
  by blast

theorem update_status_single_active_witness:
  "one_active_period db_periods \<and> period_jan \<in> set (periods db_periods)
   \<and> uid period_jan \<noteq> 2 \<and> p_status period_jan = ACTIVE \<and> \<not> is_deleted period_jan
   \<and> (\<exists>e. update_status 9 2 ACTIVE db_periods = (Inl e, db_periods))
   \<and> update_status 9 2 ACTIVE db_periods = (Inl AttributeError, db_periods)
   \<and> one_active_period (update_statuses status_calls db_periods)
   \<and> map p_status (periods (update_statuses status_calls db_periods)) = [CLOSED, ACTIVE]"
proof -
  have i: "one_active_period db_periods" by code_simp
  have m: "period_jan \<in> set (periods db_periods)" by (simp add: db_periods_def)
  have q: "uid period_jan \<noteq> 2" "p_status period_jan = ACTIVE" "\<not> is_deleted period_jan"
    by (simp_all add: period_jan_def)
  note r = update_status_single_active [of db_periods period_jan 2 9 status_calls]
  from r i m q have a: "\<exists>e. update_status 9 2 ACTIVE db_periods = (Inl e, db_periods)"
    by blast
  from r i have b: "one_active_period (update_statuses status_calls db_periods)" by blast
  have c: "update_status 9 2 ACTIVE db_periods = (Inl AttributeError, db_periods)" by code_simp
  have d: "map p_status (periods (update_statuses status_calls db_periods)) = [CLOSED, ACTIVE]"
    by code_simp
  from i m q a b c d show ?thesis by blast
qed

subsection \<open>Uniqueness of indicators\<close>

text \<open>
  C9 fails for an update that changes the period alone. In \<open>db_dash\<close> no two non-deleted BSC
  indicators share code and period. \<open>bsc_update_indicator\<close> moves the indicator 1, of code
  F1, to period 2 without an error, although the indicator 3 has code F1 in period 2;
  afterwards the two are duplicates of each other. Creating an indicator of code F1 in
  period 2 is rejected.
\<close>

theorem bsc_update_indicator_period_duplicates:
  "bsc_duplicates db_dash = []
   \<and> bsc_update_indicator 9 1 upd_move_period db_dash
       = (Inr bsc_ind_moved,
          db_dash\<lparr>bsc_indicators :=
            [bsc_ind_moved, bsc_ind_inactive, bsc_ind_elsewhere, bsc_ind_deleted]\<rparr>)
   \<and> bsc_duplicates (snd (bsc_update_indicator 9 1 upd_move_period db_dash))
       = [(bsc_ind_moved, bsc_ind_elsewhere), (bsc_ind_elsewhere, bsc_ind_moved)]
   \<and> bsc_create_indicator 12 9 in_code_taken db_dash = (Inl BadRequest, db_dash)"
proof -
  have "bsc_duplicates db_dash = []" by code_simp
  moreover have "bsc_update_indicator 9 1 upd_move_period db_dash
       = (Inr bsc_ind_moved,
          db_dash\<lparr>bsc_indicators :=
            [bsc_ind_moved, bsc_ind_inactive, bsc_ind_elsewhere, bsc_ind_deleted]\<rparr>)"
    by code_simp
  moreover have "bsc_duplicates (snd (bsc_update_indicator 9 1 upd_move_period db_dash))
       = [(bsc_ind_moved, bsc_ind_elsewhere), (bsc_ind_elsewhere, bsc_ind_moved)]"
    by code_simp
  moreover have "bsc_create_indicator 12 9 in_code_taken db_dash = (Inl BadRequest, db_dash)"
    by code_simp
  ultimately show ?thesis by blast
qed

end
